theory Spec2Isabelle
  imports Main "HOL-Library.Sublist"
begin

section \<open>The vSphere cloud provider: data model\<close>

text \<open>
  The provider is the Go package \<open>vsphere\<close>. Go strings are byte strings, as
  \<^typ>\<open>string\<close> is here. A Go pointer that the code tests against \<open>nil\<close> (or
  dereferences without testing) is an \<^typ>\<open>'a option\<close>; dereferencing \<open>nil\<close>
  panics, which the model returns as the error \<open>NilPointerDereference\<close>.
\<close>

text \<open>
  Every error value the package builds. An error that arrives from a collaborator
  (vCenter, the secret store, the cluster updater) is \<open>External\<close>; the constructors
  with an \<open>error\<close> argument are the \<open>fmt.Errorf("...: %w", err)\<close> wrappers.
\<close>

datatype error =
    External string
  | NilPointerDereference
  | NoCredentialsReference
  | UnableToGetUsername
  | UnableToGetPassword
  | FailedToLogin error
  | FailedToGetDatacenter string error
  | FailedToCreateSession error
  | FailedToCreateRESTSession error
  | FailedToCreateVMFolder string error
  | FailedToCreateTagCategory error
  | CouldNotRetrieveFolderList error
  | NoDatastoreProvided
  | EitherDatastoreOrDatastoreCluster
  | FailedToGetDefaultDatastore string error
  | FailedToGetResourcePool string error
  | FailedToGetDatastoreCluster string error
  | FailedToGetDatastore string error
  | VSphereSpecEmpty
  | UpdatingFolderNotSupported string string

record VSphereCredentials =
  cred_Username :: string
  cred_Password :: string

text \<open>
  \<open>GlobalSecretKeySelector\<close> is declared outside the package; the code only passes
  the pointer on to the secret selector, so the reference is an opaque name here.
\<close>

type_synonym GlobalSecretKeySelector = string

record VSphereCloudSpec =
  CredentialsReference :: "GlobalSecretKeySelector option"
  Username :: string
  Password :: string
  InfraManagementUser :: VSphereCredentials
  Folder :: string
  Datastore :: string
  DatastoreCluster :: string
  ResourcePool :: string
  TagCategoryID :: string

record CloudSpec =
  VSphere :: "VSphereCloudSpec option"

record DatacenterSpecVSphere =
  Endpoint :: string
  AllowInsecure :: bool
  DefaultDatastore :: string
  Datacenter :: string
  RootPath :: string
  dc_InfraManagementUser :: "VSphereCredentials option"

text \<open>
  Modelled from the spec: the finalizers of a cluster are a set of string markers, and
  \<open>HasFinalizer\<close>, \<open>AddFinalizer\<close>, \<open>RemoveFinalizer\<close> (package \<open>kuberneteshelper\<close>,
  not part of the sources) are the membership test, insertion and removal on that set.
\<close>

record ClusterSpec =
  Cloud :: CloudSpec

record Cluster =
  Name :: string
  Finalizers :: "string set"
  Spec :: ClusterSpec

definition HasFinalizer :: "Cluster \<Rightarrow> string \<Rightarrow> bool" where
  "HasFinalizer c n = (n \<in> Finalizers c)"

definition AddFinalizer :: "Cluster \<Rightarrow> string \<Rightarrow> Cluster" where
  "AddFinalizer c n = c\<lparr>Finalizers := insert n (Finalizers c)\<rparr>"

definition RemoveFinalizer :: "Cluster \<Rightarrow> string \<Rightarrow> Cluster" where
  "RemoveFinalizer c n = c\<lparr>Finalizers := Finalizers c - {n}\<rparr>"

definition folderCleanupFinalizer :: string where
  "folderCleanupFinalizer = ''kubermatic.k8c.io/cleanup-vsphere-folder''"

definition tagCategoryCleanupFinilizer :: string where
  "tagCategoryCleanupFinilizer = ''kubermatic.k8c.io/cleanup-vsphere-tag-category''"

section \<open>Credential resolution\<close>

text \<open>
  The four secret keys are constants of package \<open>resources\<close>, which is not part of
  the sources: they are a parameter of the model.
\<close>

record resources =
  VsphereUsername :: string
  VspherePassword :: string
  VsphereInfraManagementUserUsername :: string
  VsphereInfraManagementUserPassword :: string

type_synonym SecretKeySelectorValueFunc =
  "GlobalSecretKeySelector \<Rightarrow> string \<Rightarrow> error + string"

text \<open>
  \<open>getUsernameAndPassword\<close>: the statements of the Go function in their order. A
  secret lookup is only made where the Go code makes it; a lookup that the code skips is
  the \<open>Inr\<close> of the value held so far.
\<close>

definition getUsernameAndPassword ::
  "resources \<Rightarrow> CloudSpec \<Rightarrow> SecretKeySelectorValueFunc \<Rightarrow> bool \<Rightarrow> error + (string \<times> string)"
where
  "getUsernameAndPassword keys cloud secretKeySelector infraManagementUser =
    (case VSphere cloud of
       None \<Rightarrow> Inl NilPointerDereference
     | Some vs \<Rightarrow>
        let username0 = (if infraManagementUser then cred_Username (InfraManagementUser vs) else []);
            password0 = (if infraManagementUser then cred_Password (InfraManagementUser vs) else []);
            username1 = (if username0 = [] then Username vs else username0);
            password1 = (if password0 = [] then Password vs else password0)
        in
        if username1 \<noteq> [] \<and> password1 \<noteq> [] then Inr (username1, password1)
        else
          (case CredentialsReference vs of
             None \<Rightarrow> Inl NoCredentialsReference
           | Some ref \<Rightarrow>
              (case (if username1 = [] \<and> infraManagementUser
                     then secretKeySelector ref (VsphereInfraManagementUserUsername keys)
                     else Inr username1) of
                 Inl err \<Rightarrow> Inl err
               | Inr username2 \<Rightarrow>
              (case (if username2 = []
                     then secretKeySelector ref (VsphereUsername keys)
                     else Inr username2) of
                 Inl err \<Rightarrow> Inl err
               | Inr username3 \<Rightarrow>
              (case (if password1 = [] \<and> infraManagementUser
                     then secretKeySelector ref (VsphereInfraManagementUserPassword keys)
                     else Inr password1) of
                 Inl err \<Rightarrow> Inl err
               | Inr password2 \<Rightarrow>
              (case (if password2 = []
                     then secretKeySelector ref (VspherePassword keys)
                     else Inr password2) of
                 Inl err \<Rightarrow> Inl err
               | Inr password3 \<Rightarrow>
                  if username3 = [] then Inl UnableToGetUsername
                  else if password3 = [] then Inl UnableToGetPassword
                  else Inr (username3, password3)))))))"

definition GetCredentialsForCluster ::
  "resources \<Rightarrow> CloudSpec \<Rightarrow> SecretKeySelectorValueFunc \<Rightarrow> DatacenterSpecVSphere option
     \<Rightarrow> error + (string \<times> string)"
where
  "GetCredentialsForCluster keys cloud secretKeySelector dc =
    (case dc of
       Some d \<Rightarrow>
        (case dc_InfraManagementUser d of
           Some imu \<Rightarrow>
            if cred_Username imu \<noteq> [] \<and> cred_Password imu \<noteq> []
            then Inr (cred_Username imu, cred_Password imu)
            else getUsernameAndPassword keys cloud secretKeySelector True
         | None \<Rightarrow> getUsernameAndPassword keys cloud secretKeySelector True)
     | None \<Rightarrow> getUsernameAndPassword keys cloud secretKeySelector True)"

text \<open>
  The precedence chain as the specification words it, for one field: the cluster's
  management-user value, then the cluster's inline value, then the secret store under
  the management-user key, then the secret store under the plain key. The first
  non-empty value wins; a failing lookup, a missing credentials reference, or an empty
  value at the end of the chain is a failure.
\<close>

definition spec_resolve_field ::
  "string \<Rightarrow> string \<Rightarrow> GlobalSecretKeySelector option \<Rightarrow> SecretKeySelectorValueFunc
     \<Rightarrow> string \<Rightarrow> string \<Rightarrow> error \<Rightarrow> error + string"
where
  "spec_resolve_field managementValue inlineValue reference secretKeySelector managementKey plainKey emptyErr =
    (if managementValue \<noteq> [] then Inr managementValue
     else if inlineValue \<noteq> [] then Inr inlineValue
     else (case reference of
             None \<Rightarrow> Inl NoCredentialsReference
           | Some ref \<Rightarrow>
              (case secretKeySelector ref managementKey of
                 Inl err \<Rightarrow> Inl err
               | Inr v \<Rightarrow>
                  if v \<noteq> [] then Inr v
                  else (case secretKeySelector ref plainKey of
                          Inl err \<Rightarrow> Inl err
                        | Inr v' \<Rightarrow> if v' \<noteq> [] then Inr v' else Inl emptyErr))))"

definition spec_resolve_username ::
  "resources \<Rightarrow> VSphereCloudSpec \<Rightarrow> SecretKeySelectorValueFunc \<Rightarrow> error + string"
where
  "spec_resolve_username keys vs secretKeySelector =
    spec_resolve_field (cred_Username (InfraManagementUser vs)) (Username vs)
      (CredentialsReference vs) secretKeySelector
      (VsphereInfraManagementUserUsername keys) (VsphereUsername keys) UnableToGetUsername"

definition spec_resolve_password ::
  "resources \<Rightarrow> VSphereCloudSpec \<Rightarrow> SecretKeySelectorValueFunc \<Rightarrow> error + string"
where
  "spec_resolve_password keys vs secretKeySelector =
    spec_resolve_field (cred_Password (InfraManagementUser vs)) (Password vs)
      (CredentialsReference vs) secretKeySelector
      (VsphereInfraManagementUserPassword keys) (VspherePassword keys) UnableToGetPassword"

text \<open>
  The top of the chain as the specification words it: the datacenter-level management
  user, taken only when both of its fields are non-empty.
\<close>

definition spec_datacenter_credentials ::
  "DatacenterSpecVSphere option \<Rightarrow> (string \<times> string) option"
where
  "spec_datacenter_credentials dc =
    (case dc of
       None \<Rightarrow> None
     | Some d \<Rightarrow>
        (case dc_InfraManagementUser d of
           None \<Rightarrow> None
         | Some imu \<Rightarrow>
            if cred_Username imu \<noteq> [] \<and> cred_Password imu \<noteq> []
            then Some (cred_Username imu, cred_Password imu) else None))"

section \<open>Paths\<close>

text \<open>
  \<open>path.Clean\<close>, \<open>path.Join\<close> and \<open>strings.HasPrefix\<close> belong to the Go standard
  library. They are written out after their documented rules: \<open>Clean\<close> collapses
  repeated slashes, drops \<open>.\<close> elements, lets \<open>..\<close> remove the element before it (a
  \<open>..\<close> at the top of a rooted path is dropped, at the top of a relative path it is
  kept), returns \<open>.\<close> for an empty result and ends in a slash only for the root itself;
  \<open>Join\<close> ignores empty elements, joins the others with slashes and cleans the result,
  and returns the empty string when there is nothing to join.
\<close>

fun split_slash :: "string \<Rightarrow> string list" where
  "split_slash [] = [[]]"
| "split_slash (c # cs) =
     (if c = CHR ''/'' then [] # split_slash cs
      else (case split_slash cs of
              [] \<Rightarrow> [[c]]
            | e # es \<Rightarrow> (c # e) # es))"

fun join_slash :: "string list \<Rightarrow> string" where
  "join_slash [] = []"
| "join_slash [e] = e"
| "join_slash (e # es) = e @ ''/'' @ join_slash es"

definition clean_step :: "bool \<Rightarrow> string list \<Rightarrow> string \<Rightarrow> string list" where
  "clean_step rooted stack e =
    (if e = ''.'' then stack
     else if e = ''..'' then
       (case stack of
          [] \<Rightarrow> if rooted then [] else [e]
        | prev # rest \<Rightarrow> if prev \<noteq> ''..'' then rest else e # stack)
     else e # stack)"

definition path_Clean :: "string \<Rightarrow> string" where
  "path_Clean p =
    (if p = [] then ''.''
     else
       let rooted = (hd p = CHR ''/'');
           elems = filter (\<lambda>e. e \<noteq> []) (split_slash p);
           stack = foldl (clean_step rooted) [] elems;
           out = (if rooted then ''/'' else []) @ join_slash (rev stack)
       in if out = [] then ''.'' else out)"

definition path_Join :: "string list \<Rightarrow> string" where
  "path_Join elem =
    (let parts = filter (\<lambda>e. e \<noteq> []) elem
     in if parts = [] then [] else path_Clean (join_slash parts))"

definition HasPrefix :: "string \<Rightarrow> string \<Rightarrow> bool" where
  "HasPrefix s pre = (length pre \<le> length s \<and> take (length pre) s = pre)"

definition getVMRootPath :: "DatacenterSpecVSphere \<Rightarrow> string" where
  "getVMRootPath dc =
    (let rootPath = path_Join [''/'', Datacenter dc, ''vm'']
     in if RootPath dc \<noteq> [] then path_Clean (RootPath dc) else rootPath)"

section \<open>Cloud spec updates\<close>

definition ValidateCloudSpecUpdate :: "CloudSpec \<Rightarrow> CloudSpec \<Rightarrow> error option" where
  "ValidateCloudSpecUpdate oldSpec newSpec =
    (case (VSphere oldSpec, VSphere newSpec) of
       (Some oldVSphere, Some newVSphere) \<Rightarrow>
         if Folder oldVSphere \<noteq> [] \<and> Folder oldVSphere \<noteq> Folder newVSphere
         then Some (UpdatingFolderNotSupported (Folder oldVSphere) (Folder newVSphere))
         else None
     | _ \<Rightarrow> Some VSphereSpecEmpty)"

section \<open>vCenter, sessions and the tracked cluster\<close>

text \<open>
  Everything the provider does outside its own memory is a call to a collaborator. The
  model keeps the calls made so far, in order, and a collaborator answers a call from
  the calls made before it and the call's arguments, so that any deterministic vCenter
  is an instance. The tracked cluster resource lives in a store of the caller's, which
  only the caller's update callback reads and writes.
\<close>

type_synonym CertPool = "string list"

record Client =
  client_URL :: string
  client_Insecure :: bool
  client_RootCAs :: CertPool

record Session =
  session_Client :: Client
  session_Datacenter :: string

record RESTSession =
  rest_Client :: string

record FolderRef =
  InventoryPath :: string

record Folder =
  Path :: string

datatype call =
    NewClient string bool CertPool
  | Login string string
  | FindDatacenter string
  | Logout
  | NewRESTSession DatacenterSpecVSphere string string
  | RESTLogout
  | CreateVMFolder string
  | DeleteVMFolder string
  | CreateTagCategory Cluster
  | DeleteTagCategory Cluster
  | FolderList string
  | FindDatastore string
  | FindResourcePool string
  | FindDatastoreCluster string
  | UpdateCall string

text \<open>
  The collaborators. \<open>url_Parse\<close>, \<open>vim25_NewClient\<close>, \<open>client_Login\<close> and the
  \<open>finder\<close> operations are library calls of \<open>newSession\<close> and the provider;
  \<open>newRESTSession\<close>, \<open>createVMFolder\<close>, \<open>deleteVMFolder\<close>, \<open>createTagCategory\<close> and
  \<open>deleteTagCategory\<close> are functions of the package that are not part of the sources.
  All of them are parameters: nothing is assumed about when they fail.
\<close>

record vcenter =
  url_Parse :: "string \<Rightarrow> error option"
  vim25_NewClient :: "call list \<Rightarrow> string \<Rightarrow> bool \<Rightarrow> CertPool \<Rightarrow> error option"
  client_Login :: "call list \<Rightarrow> string \<Rightarrow> string \<Rightarrow> error option"
  finder_Datacenter :: "call list \<Rightarrow> string \<Rightarrow> error + string"
  finder_FolderList :: "call list \<Rightarrow> string \<Rightarrow> error + FolderRef list"
  finder_Datastore :: "call list \<Rightarrow> string \<Rightarrow> error option"
  finder_ResourcePool :: "call list \<Rightarrow> string \<Rightarrow> error option"
  finder_DatastoreCluster :: "call list \<Rightarrow> string \<Rightarrow> error option"
  ext_newRESTSession ::
    "call list \<Rightarrow> DatacenterSpecVSphere \<Rightarrow> string \<Rightarrow> string \<Rightarrow> CertPool \<Rightarrow> error + RESTSession"
  ext_createVMFolder :: "call list \<Rightarrow> Session \<Rightarrow> string \<Rightarrow> error option"
  ext_deleteVMFolder :: "call list \<Rightarrow> Session \<Rightarrow> string \<Rightarrow> error option"
  ext_createTagCategory :: "call list \<Rightarrow> RESTSession \<Rightarrow> Cluster \<Rightarrow> error + string"
  ext_deleteTagCategory :: "call list \<Rightarrow> RESTSession \<Rightarrow> Cluster \<Rightarrow> error option"
  secret_keys :: resources

record 's world =
  store :: 's
  calls :: "call list"

definition record_call :: "call \<Rightarrow> 's world \<Rightarrow> 's world" where
  "record_call c w = w\<lparr>calls := calls w @ [c]\<rparr>"

text \<open>
  \<open>NewCloudProvider\<close> refuses a datacenter without a vSphere spec, so the \<open>dc\<close> of a
  provider is never \<open>nil\<close>. \<open>GetCredentialsForCluster\<close> is exported and tests its
  \<open>dc\<close> argument against \<open>nil\<close>, so there the argument is optional.
\<close>

record Provider =
  provider_dc :: DatacenterSpecVSphere
  provider_secretKeySelector :: SecretKeySelectorValueFunc
  provider_caBundle :: CertPool

text \<open>
  \<open>Session.Logout\<close>: a failing logout is handed to \<open>kruntime.HandleError\<close> and is not
  returned, so the call is recorded and its answer is dropped.
\<close>

definition Session_Logout :: "Session \<Rightarrow> 's world \<Rightarrow> 's world" where
  "Session_Logout s w = record_call Logout w"

definition RESTSession_Logout :: "RESTSession \<Rightarrow> 's world \<Rightarrow> 's world" where
  "RESTSession_Logout s w = record_call RESTLogout w"

definition login_user :: "DatacenterSpecVSphere \<Rightarrow> string \<Rightarrow> string \<Rightarrow> string \<times> string" where
  "login_user dc username password =
    (case dc_InfraManagementUser dc of
       Some imu \<Rightarrow> (cred_Username imu, cred_Password imu)
     | None \<Rightarrow> (username, password))"

definition newSession ::
  "vcenter \<Rightarrow> DatacenterSpecVSphere \<Rightarrow> string \<Rightarrow> string \<Rightarrow> CertPool \<Rightarrow> 's world
     \<Rightarrow> (error + Session) \<times> 's world"
where
  "newSession vc dc username password caBundle w =
    (let u = Endpoint dc @ ''/sdk'' in
     case url_Parse vc u of
       Some err \<Rightarrow> (Inl err, w)
     | None \<Rightarrow>
        let w1 = record_call (NewClient u (AllowInsecure dc) caBundle) w in
        (case vim25_NewClient vc (calls w) u (AllowInsecure dc) caBundle of
           Some err \<Rightarrow> (Inl err, w1)
         | None \<Rightarrow>
            let client = \<lparr>client_URL = u, client_Insecure = AllowInsecure dc,
                          client_RootCAs = caBundle\<rparr>;
                user = login_user dc username password;
                w2 = record_call (Login (fst user) (snd user)) w1 in
            (case client_Login vc (calls w1) (fst user) (snd user) of
               Some err \<Rightarrow> (Inl (FailedToLogin err), w2)
             | None \<Rightarrow>
                let w3 = record_call (FindDatacenter (Datacenter dc)) w2 in
                (case finder_Datacenter vc (calls w2) (Datacenter dc) of
                   Inl err \<Rightarrow> (Inl (FailedToGetDatacenter (Datacenter dc) err), w3)
                 | Inr datacenter \<Rightarrow>
                    (Inr \<lparr>session_Client = client, session_Datacenter = datacenter\<rparr>, w3)))))"

definition newRESTSession ::
  "vcenter \<Rightarrow> DatacenterSpecVSphere \<Rightarrow> string \<Rightarrow> string \<Rightarrow> CertPool \<Rightarrow> 's world
     \<Rightarrow> (error + RESTSession) \<times> 's world"
where
  "newRESTSession vc dc username password caBundle w =
    (ext_newRESTSession vc (calls w) dc username password caBundle,
     record_call (NewRESTSession dc username password) w)"

definition createVMFolder ::
  "vcenter \<Rightarrow> Session \<Rightarrow> string \<Rightarrow> 's world \<Rightarrow> error option \<times> 's world"
where
  "createVMFolder vc session fullPath w =
    (ext_createVMFolder vc (calls w) session fullPath, record_call (CreateVMFolder fullPath) w)"

definition deleteVMFolder ::
  "vcenter \<Rightarrow> Session \<Rightarrow> string \<Rightarrow> 's world \<Rightarrow> error option \<times> 's world"
where
  "deleteVMFolder vc session fullPath w =
    (ext_deleteVMFolder vc (calls w) session fullPath, record_call (DeleteVMFolder fullPath) w)"

definition createTagCategory ::
  "vcenter \<Rightarrow> RESTSession \<Rightarrow> Cluster \<Rightarrow> 's world \<Rightarrow> (error + string) \<times> 's world"
where
  "createTagCategory vc restSession cluster w =
    (ext_createTagCategory vc (calls w) restSession cluster,
     record_call (CreateTagCategory cluster) w)"

definition deleteTagCategory ::
  "vcenter \<Rightarrow> RESTSession \<Rightarrow> Cluster \<Rightarrow> 's world \<Rightarrow> error option \<times> 's world"
where
  "deleteTagCategory vc restSession cluster w =
    (ext_deleteTagCategory vc (calls w) restSession cluster,
     record_call (DeleteTagCategory cluster) w)"

text \<open>
  The update callback is the caller's: it gets the cluster name and a mutation, and
  answers with the updated cluster or an error, reading and writing the caller's store.
  A mutation that dereferences a missing vSphere section panics.
\<close>

type_synonym 's ClusterUpdater =
  "'s \<Rightarrow> string \<Rightarrow> (Cluster \<Rightarrow> error + Cluster) \<Rightarrow> (error + Cluster) \<times> 's"

definition call_update ::
  "'s ClusterUpdater \<Rightarrow> string \<Rightarrow> (Cluster \<Rightarrow> error + Cluster) \<Rightarrow> 's world
     \<Rightarrow> (error + Cluster) \<times> 's world"
where
  "call_update update name mutate w =
    (case update (store w) name mutate of
       (r, s) \<Rightarrow> (r, \<lparr>store = s, calls = calls w @ [UpdateCall name]\<rparr>))"

definition Finder_FolderList ::
  "vcenter \<Rightarrow> string \<Rightarrow> 's world \<Rightarrow> (error + FolderRef list) \<times> 's world"
where
  "Finder_FolderList vc pattern w =
    (finder_FolderList vc (calls w) pattern, record_call (FolderList pattern) w)"

definition Finder_Datastore :: "vcenter \<Rightarrow> string \<Rightarrow> 's world \<Rightarrow> error option \<times> 's world" where
  "Finder_Datastore vc name w =
    (finder_Datastore vc (calls w) name, record_call (FindDatastore name) w)"

definition Finder_ResourcePool :: "vcenter \<Rightarrow> string \<Rightarrow> 's world \<Rightarrow> error option \<times> 's world" where
  "Finder_ResourcePool vc name w =
    (finder_ResourcePool vc (calls w) name, record_call (FindResourcePool name) w)"

definition Finder_DatastoreCluster ::
  "vcenter \<Rightarrow> string \<Rightarrow> 's world \<Rightarrow> error option \<times> 's world"
where
  "Finder_DatastoreCluster vc name w =
    (finder_DatastoreCluster vc (calls w) name, record_call (FindDatastoreCluster name) w)"

section \<open>Listing folders\<close>

text \<open>The filtering loop of \<open>GetVMFolders\<close>; \<open>folders\<close> is the slice built so far.\<close>

fun GetVMFolders_loop :: "string \<Rightarrow> FolderRef list \<Rightarrow> Folder list \<Rightarrow> Folder list" where
  "GetVMFolders_loop rootPath [] folders = folders"
| "GetVMFolders_loop rootPath (folderRef # folderRefs) folders =
     (if \<not> HasPrefix (InventoryPath folderRef) (rootPath @ ''/'') \<and>
         InventoryPath folderRef \<noteq> rootPath
      then GetVMFolders_loop rootPath folderRefs folders
      else GetVMFolders_loop rootPath folderRefs
             (folders @ [\<lparr>Path = InventoryPath folderRef\<rparr>]))"

definition GetVMFolders ::
  "vcenter \<Rightarrow> DatacenterSpecVSphere \<Rightarrow> string \<Rightarrow> string \<Rightarrow> CertPool \<Rightarrow> 's world
     \<Rightarrow> (error + Folder list) \<times> 's world"
where
  "GetVMFolders vc dc username password caBundle w =
    (case newSession vc dc username password caBundle w of
       (Inl err, w1) \<Rightarrow> (Inl (FailedToCreateSession err), w1)
     | (Inr session, w1) \<Rightarrow>
        (case Finder_FolderList vc ''*'' w1 of
           (Inl err, w2) \<Rightarrow> (Inl (CouldNotRetrieveFolderList err), Session_Logout session w2)
         | (Inr folderRefs, w2) \<Rightarrow>
            (Inr (GetVMFolders_loop (getVMRootPath dc) folderRefs []),
             Session_Logout session w2)))"

section \<open>Validating a cloud spec\<close>

text \<open>The four inventory lookups of \<open>ValidateCloudSpec\<close>, made with the open session.\<close>

definition ValidateCloudSpec_lookups ::
  "vcenter \<Rightarrow> DatacenterSpecVSphere \<Rightarrow> VSphereCloudSpec \<Rightarrow> 's world \<Rightarrow> error option \<times> 's world"
where
  "ValidateCloudSpec_lookups vc dc vs w =
    (case (if DefaultDatastore dc \<noteq> [] then Finder_Datastore vc (DefaultDatastore dc) w
           else (None, w)) of
       (Some err, w1) \<Rightarrow> (Some (FailedToGetDefaultDatastore (DefaultDatastore dc) err), w1)
     | (None, w1) \<Rightarrow>
    (case (if ResourcePool vs \<noteq> [] then Finder_ResourcePool vc (ResourcePool vs) w1
           else (None, w1)) of
       (Some err, w2) \<Rightarrow> (Some (FailedToGetResourcePool (ResourcePool vs) err), w2)
     | (None, w2) \<Rightarrow>
    (case (if DatastoreCluster vs \<noteq> [] then Finder_DatastoreCluster vc (DatastoreCluster vs) w2
           else (None, w2)) of
       (Some err, w3) \<Rightarrow> (Some (FailedToGetDatastoreCluster (DatastoreCluster vs) err), w3)
     | (None, w3) \<Rightarrow>
    (case (if Datastore vs \<noteq> [] then Finder_Datastore vc (Datastore vs) w3
           else (None, w3)) of
       (Some err, w4) \<Rightarrow> (Some (FailedToGetDatastore (Datastore vs) err), w4)
     | (None, w4) \<Rightarrow> (None, w4)))))"

definition ValidateCloudSpec ::
  "vcenter \<Rightarrow> Provider \<Rightarrow> CloudSpec \<Rightarrow> 's world \<Rightarrow> error option \<times> 's world"
where
  "ValidateCloudSpec vc v spec w =
    (case GetCredentialsForCluster (secret_keys vc) spec (provider_secretKeySelector v)
            (Some (provider_dc v)) of
       Inl err \<Rightarrow> (Some err, w)
     | Inr (username, password) \<Rightarrow>
        (case VSphere spec of
           None \<Rightarrow> (Some NilPointerDereference, w)
         | Some vs \<Rightarrow>
            if DefaultDatastore (provider_dc v) = [] \<and> DatastoreCluster vs = [] \<and>
               Datastore vs = []
            then (Some NoDatastoreProvided, w)
            else if DatastoreCluster vs \<noteq> [] \<and> Datastore vs \<noteq> []
            then (Some EitherDatastoreOrDatastoreCluster, w)
            else
              (case newSession vc (provider_dc v) username password (provider_caBundle v) w of
                 (Inl err, w1) \<Rightarrow> (Some (FailedToCreateSession err), w1)
               | (Inr session, w1) \<Rightarrow>
                  (case ValidateCloudSpec_lookups vc (provider_dc v) vs w1 of
                     (r, w2) \<Rightarrow> (r, Session_Logout session w2)))))"

section \<open>Initialising and cleaning up\<close>

definition with_VSphere :: "Cluster \<Rightarrow> VSphereCloudSpec \<Rightarrow> Cluster" where
  "with_VSphere c vs = c\<lparr>Spec := (Spec c)\<lparr>Cloud := (Cloud (Spec c))\<lparr>VSphere := Some vs\<rparr>\<rparr>\<rparr>"

text \<open>The two mutations that \<open>InitializeCloudProvider\<close> hands to the update callback.\<close>

definition setFolder :: "string \<Rightarrow> Cluster \<Rightarrow> error + Cluster" where
  "setFolder clusterFolder cluster =
    (let c = AddFinalizer cluster folderCleanupFinalizer in
     case VSphere (Cloud (Spec c)) of
       None \<Rightarrow> Inl NilPointerDereference
     | Some vs \<Rightarrow> Inr (with_VSphere c (vs\<lparr>Folder := clusterFolder\<rparr>)))"

definition setTagCategoryID :: "string \<Rightarrow> Cluster \<Rightarrow> error + Cluster" where
  "setTagCategoryID categoryID cluster =
    (let c = AddFinalizer cluster tagCategoryCleanupFinilizer in
     case VSphere (Cloud (Spec c)) of
       None \<Rightarrow> Inl NilPointerDereference
     | Some vs \<Rightarrow> Inr (with_VSphere c (vs\<lparr>TagCategoryID := categoryID\<rparr>)))"

text \<open>
  The second block of \<open>InitializeCloudProvider\<close> (the tag category), on the cluster
  that the first block left. Its deferred REST logout runs on every return after the
  REST session is open.
\<close>

definition InitializeCloudProvider_tagCategory ::
  "vcenter \<Rightarrow> Provider \<Rightarrow> string \<Rightarrow> string \<Rightarrow> 's ClusterUpdater \<Rightarrow> Cluster \<Rightarrow> 's world
     \<Rightarrow> (error + Cluster) \<times> 's world"
where
  "InitializeCloudProvider_tagCategory vc v username password update cluster w =
    (case VSphere (Cloud (Spec cluster)) of
       None \<Rightarrow> (Inl NilPointerDereference, w)
     | Some vs \<Rightarrow>
        if TagCategoryID vs = [] then
          (case newRESTSession vc (provider_dc v) username password (provider_caBundle v) w of
             (Inl err, w1) \<Rightarrow> (Inl (FailedToCreateRESTSession err), w1)
           | (Inr restSession, w1) \<Rightarrow>
              (case createTagCategory vc restSession cluster w1 of
                 (Inl err, w2) \<Rightarrow>
                   (Inl (FailedToCreateTagCategory err), RESTSession_Logout restSession w2)
               | (Inr categoryID, w2) \<Rightarrow>
                  (case call_update update (Name cluster) (setTagCategoryID categoryID) w2 of
                     (Inl err, w3) \<Rightarrow> (Inl err, RESTSession_Logout restSession w3)
                   | (Inr cluster', w3) \<Rightarrow>
                      (Inr cluster', RESTSession_Logout restSession w3))))
        else (Inr cluster, w))"

text \<open>
  \<open>InitializeCloudProvider\<close>. The session logout of the folder block is deferred to
  the return of the whole function, so it is recorded after everything the tag-category
  block does.
\<close>

definition InitializeCloudProvider ::
  "vcenter \<Rightarrow> Provider \<Rightarrow> Cluster \<Rightarrow> 's ClusterUpdater \<Rightarrow> 's world
     \<Rightarrow> (error + Cluster) \<times> 's world"
where
  "InitializeCloudProvider vc v cluster update w =
    (case GetCredentialsForCluster (secret_keys vc) (Cloud (Spec cluster))
            (provider_secretKeySelector v) (Some (provider_dc v)) of
       Inl err \<Rightarrow> (Inl err, w)
     | Inr (username, password) \<Rightarrow>
        let rootPath = getVMRootPath (provider_dc v) in
        (case VSphere (Cloud (Spec cluster)) of
           None \<Rightarrow> (Inl NilPointerDereference, w)
         | Some vs \<Rightarrow>
            if Folder vs = [] then
              (case newSession vc (provider_dc v) username password (provider_caBundle v) w of
                 (Inl err, w1) \<Rightarrow> (Inl (FailedToCreateSession err), w1)
               | (Inr session, w1) \<Rightarrow>
                  let clusterFolder = path_Join [rootPath, Name cluster] in
                  (case createVMFolder vc session clusterFolder w1 of
                     (Some err, w2) \<Rightarrow>
                       (Inl (FailedToCreateVMFolder clusterFolder err),
                        Session_Logout session w2)
                   | (None, w2) \<Rightarrow>
                      (case call_update update (Name cluster) (setFolder clusterFolder) w2 of
                         (Inl err, w3) \<Rightarrow> (Inl err, Session_Logout session w3)
                       | (Inr cluster', w3) \<Rightarrow>
                          (case InitializeCloudProvider_tagCategory vc v username password
                                  update cluster' w3 of
                             (r, w4) \<Rightarrow> (r, Session_Logout session w4)))))
            else InitializeCloudProvider_tagCategory vc v username password update cluster w))"

text \<open>The two finalizer blocks of \<open>CleanUpCloudProvider\<close>, with both sessions open.\<close>

definition CleanUpCloudProvider_folder ::
  "vcenter \<Rightarrow> Session \<Rightarrow> 's ClusterUpdater \<Rightarrow> Cluster \<Rightarrow> 's world
     \<Rightarrow> (error + Cluster) \<times> 's world"
where
  "CleanUpCloudProvider_folder vc session update cluster w =
    (if HasFinalizer cluster folderCleanupFinalizer then
       (case VSphere (Cloud (Spec cluster)) of
          None \<Rightarrow> (Inl NilPointerDereference, w)
        | Some vs \<Rightarrow>
           (case deleteVMFolder vc session (Folder vs) w of
              (Some err, w1) \<Rightarrow> (Inl err, w1)
            | (None, w1) \<Rightarrow>
               call_update update (Name cluster)
                 (\<lambda>cluster. Inr (RemoveFinalizer cluster folderCleanupFinalizer)) w1))
     else (Inr cluster, w))"

definition CleanUpCloudProvider_tagCategory ::
  "vcenter \<Rightarrow> RESTSession \<Rightarrow> 's ClusterUpdater \<Rightarrow> Cluster \<Rightarrow> 's world
     \<Rightarrow> (error + Cluster) \<times> 's world"
where
  "CleanUpCloudProvider_tagCategory vc restSession update cluster w =
    (if HasFinalizer cluster tagCategoryCleanupFinilizer then
       (case deleteTagCategory vc restSession cluster w of
          (Some err, w1) \<Rightarrow> (Inl err, w1)
        | (None, w1) \<Rightarrow>
           call_update update (Name cluster)
             (\<lambda>cluster. Inr (RemoveFinalizer cluster tagCategoryCleanupFinilizer)) w1)
     else (Inr cluster, w))"

definition CleanUpCloudProvider ::
  "vcenter \<Rightarrow> Provider \<Rightarrow> Cluster \<Rightarrow> 's ClusterUpdater \<Rightarrow> 's world
     \<Rightarrow> (error + Cluster) \<times> 's world"
where
  "CleanUpCloudProvider vc v cluster update w =
    (case GetCredentialsForCluster (secret_keys vc) (Cloud (Spec cluster))
            (provider_secretKeySelector v) (Some (provider_dc v)) of
       Inl err \<Rightarrow> (Inl err, w)
     | Inr (username, password) \<Rightarrow>
        (case newSession vc (provider_dc v) username password (provider_caBundle v) w of
           (Inl err, w1) \<Rightarrow> (Inl (FailedToCreateSession err), w1)
         | (Inr session, w1) \<Rightarrow>
            (case newRESTSession vc (provider_dc v) username password (provider_caBundle v) w1 of
               (Inl err, w2) \<Rightarrow> (Inl (FailedToCreateRESTSession err), Session_Logout session w2)
             | (Inr restSession, w2) \<Rightarrow>
                (case (case CleanUpCloudProvider_folder vc session update cluster w2 of
                         (Inl err, w3) \<Rightarrow> (Inl err, w3)
                       | (Inr cluster', w3) \<Rightarrow>
                           CleanUpCloudProvider_tagCategory vc restSession update cluster' w3) of
                   (r, w4) \<Rightarrow>
                     (r, Session_Logout session (RESTSession_Logout restSession w4))))))"

text \<open>Fixtures for the concrete instances below.\<close>

definition ex_keys :: resources where
  "ex_keys = \<lparr>VsphereUsername = ''username'', VspherePassword = ''password'',
     VsphereInfraManagementUserUsername = ''infraManagementUserUsername'',
     VsphereInfraManagementUserPassword = ''infraManagementUserPassword''\<rparr>"

definition ex_vsphere :: VSphereCloudSpec where
  "ex_vsphere = \<lparr>CredentialsReference = None, Username = ''u2'', Password = ''p2'',
     InfraManagementUser = \<lparr>cred_Username = [], cred_Password = []\<rparr>,
     Folder = [], Datastore = [], DatastoreCluster = [], ResourcePool = [],
     TagCategoryID = []\<rparr>"

definition ex_dc :: DatacenterSpecVSphere where
  "ex_dc = \<lparr>Endpoint = ''https://vcenter.example'', AllowInsecure = False,
     DefaultDatastore = ''ds0'', Datacenter = ''dc'', RootPath = [],
     dc_InfraManagementUser = None\<rparr>"

definition ex_secrets :: SecretKeySelectorValueFunc where
  "ex_secrets ref key =
    (if key = ''infraManagementUserPassword'' then Inr ''p4''
     else if key = ''password'' then Inr ''p5''
     else Inl (External ''no such key''))"

text \<open>
  Modelled from the spec: the update callback of the concrete instances. It applies the
  mutation to the persisted version of the cluster and returns the new version.
\<close>

definition ex_update :: "Cluster ClusterUpdater" where
  "ex_update persisted name mutate =
    (case mutate persisted of
       Inl err \<Rightarrow> (Inl err, persisted)
     | Inr c \<Rightarrow> (Inr c, c))"

definition ex_cluster :: Cluster where
  "ex_cluster = \<lparr>Name = ''c1'', Finalizers = {},
     Spec = \<lparr>Cloud = \<lparr>VSphere = Some ex_vsphere\<rparr>\<rparr>\<rparr>"

definition ex_world :: "Cluster world" where
  "ex_world = \<lparr>store = ex_cluster, calls = []\<rparr>"

definition ex_provider :: Provider where
  "ex_provider = \<lparr>provider_dc = ex_dc, provider_secretKeySelector = ex_secrets,
     provider_caBundle = []\<rparr>"

text \<open>A vCenter on which every call succeeds, with the inventory of the folder example.\<close>

definition ex_vcenter :: vcenter where
  "ex_vcenter = \<lparr>
     url_Parse = (\<lambda>u. None),
     vim25_NewClient = (\<lambda>h u insecure ca. None),
     client_Login = (\<lambda>h username password. None),
     finder_Datacenter = (\<lambda>h name. Inr name),
     finder_FolderList = (\<lambda>h pattern. Inr [\<lparr>InventoryPath = ''/dc/vm''\<rparr>,
        \<lparr>InventoryPath = ''/dc/vm/a''\<rparr>, \<lparr>InventoryPath = ''/dc/vm/ab''\<rparr>,
        \<lparr>InventoryPath = ''/dc/other''\<rparr>]),
     finder_Datastore = (\<lambda>h name. None),
     finder_ResourcePool = (\<lambda>h name. None),
     finder_DatastoreCluster = (\<lambda>h name. None),
     ext_newRESTSession = (\<lambda>h dc username password ca. Inr \<lparr>rest_Client = ''rest''\<rparr>),
     ext_createVMFolder = (\<lambda>h session fullPath. None),
     ext_deleteVMFolder = (\<lambda>h session fullPath. None),
     ext_createTagCategory = (\<lambda>h restSession cluster. Inr ''category-1''),
     ext_deleteTagCategory = (\<lambda>h restSession cluster. None),
     secret_keys = ex_keys\<rparr>"

definition ex_session :: Session where
  "ex_session = \<lparr>session_Client = \<lparr>client_URL = ''https://vcenter.example/sdk'',
       client_Insecure = False, client_RootCAs = []\<rparr>,
     session_Datacenter = ''dc''\<rparr>"

definition ex_session_calls :: "call list" where
  "ex_session_calls = [NewClient ''https://vcenter.example/sdk'' False [],
     Login ''u2'' ''p2'', FindDatacenter ''dc'']"

definition ex_cluster_with_folder :: Cluster where
  "ex_cluster_with_folder = \<lparr>Name = ''c1'', Finalizers = {folderCleanupFinalizer},
     Spec = \<lparr>Cloud = \<lparr>VSphere = Some (ex_vsphere\<lparr>Folder := ''/dc/vm/c1''\<rparr>)\<rparr>\<rparr>\<rparr>"

definition ex_cluster_tag_only :: Cluster where
  "ex_cluster_tag_only = \<lparr>Name = ''c1'', Finalizers = {tagCategoryCleanupFinilizer},
     Spec = \<lparr>Cloud = \<lparr>VSphere = Some (ex_vsphere\<lparr>TagCategoryID := ''category-1''\<rparr>)\<rparr>\<rparr>\<rparr>"

definition ex_vcenter_tag_in_use :: vcenter where
  "ex_vcenter_tag_in_use = ex_vcenter\<lparr>ext_deleteTagCategory :=
     (\<lambda>h restSession cluster. Some (External ''category in use''))\<rparr>"

definition ex_vcenter_folder_busy :: vcenter where
  "ex_vcenter_folder_busy = ex_vcenter\<lparr>ext_deleteVMFolder :=
     (\<lambda>h session fullPath. Some (External ''folder busy''))\<rparr>"

definition ex_vcenter_no_rest :: vcenter where
  "ex_vcenter_no_rest = ex_vcenter\<lparr>ext_newRESTSession :=
     (\<lambda>h dc username password ca. Inl (External ''rest endpoint down''))\<rparr>"

definition ex_vsphere_two_datastores :: VSphereCloudSpec where
  "ex_vsphere_two_datastores = ex_vsphere\<lparr>Datastore := ''ds1'', DatastoreCluster := ''dc1''\<rparr>"

text \<open>A path element that \<open>path.Clean\<close> leaves alone.\<close>

definition plain_element :: "string \<Rightarrow> bool" where
  "plain_element e = (e \<noteq> [] \<and> CHR ''/'' \<notin> set e \<and> e \<noteq> ''.'' \<and> e \<noteq> ''..'')"

text \<open>
  A normalised absolute path: a slash followed by nothing, or by plain elements
  separated by single slashes.
\<close>

definition clean_absolute :: "string \<Rightarrow> bool" where
  "clean_absolute p =
    (case p of
       [] \<Rightarrow> False
     | c # cs \<Rightarrow> c = CHR ''/'' \<and> (cs = [] \<or> list_all plain_element (split_slash cs)))"

section \<open>Credential resolution: the precedence\<close>

lemma GetCredentialsForCluster_cases:
  "GetCredentialsForCluster keys cloud sel dc =
    (case spec_datacenter_credentials dc of
       Some c \<Rightarrow> Inr c
     | None \<Rightarrow> getUsernameAndPassword keys cloud sel True)"
  by (simp add: GetCredentialsForCluster_def spec_datacenter_credentials_def
      split: option.splits)

lemma getUsernameAndPassword_chain:
  "VSphere cloud = Some vs \<Longrightarrow>
   (getUsernameAndPassword keys cloud sel True = Inr (u, p)) =
   (spec_resolve_username keys vs sel = Inr u \<and> spec_resolve_password keys vs sel = Inr p)"
  unfolding getUsernameAndPassword_def spec_resolve_username_def spec_resolve_password_def
    spec_resolve_field_def Let_def
  by (auto split: option.splits sum.splits if_splits)

text \<open>
  C4. Credential resolution follows the stated precedence. When the datacenter-level
  management user has both fields non-empty, \<open>GetCredentialsForCluster\<close> returns that
  pair, whatever the cluster holds. Otherwise it returns \<open>(u, p)\<close> exactly when the
  username chain yields \<open>u\<close> and the password chain yields \<open>p\<close>, each chain on its own:
  cluster management user, then cluster inline value, then the secret store under the
  management-user key, then the secret store under the plain key.
\<close>

theorem GetCredentialsForCluster_precedence:
  "(spec_datacenter_credentials dc = Some (u, p) \<longrightarrow>
      GetCredentialsForCluster keys cloud sel dc = Inr (u, p)) \<and>
   (spec_datacenter_credentials dc = None \<longrightarrow> VSphere cloud = Some vs \<longrightarrow>
      (GetCredentialsForCluster keys cloud sel dc = Inr (u, p)) =
      (spec_resolve_username keys vs sel = Inr u \<and>
       spec_resolve_password keys vs sel = Inr p))"
  by (simp add: GetCredentialsForCluster_cases getUsernameAndPassword_chain)

text \<open>
  Three instances: datacenter-level \<open>(u1, p1)\<close> wins over cluster inline \<open>(u2, p2)\<close>;
  without the datacenter level, the cluster management user \<open>(u3, p3)\<close> wins over the
  inline pair; and an inline username is combined with a password from the secret store,
  where the management-user key is taken before the plain key.
\<close>

theorem GetCredentialsForCluster_precedence_witness:
  "GetCredentialsForCluster ex_keys \<lparr>VSphere = Some ex_vsphere\<rparr> ex_secrets
     (Some (ex_dc\<lparr>dc_InfraManagementUser :=
        Some \<lparr>cred_Username = ''u1'', cred_Password = ''p1''\<rparr>\<rparr>)) = Inr (''u1'', ''p1'') \<and>
   GetCredentialsForCluster ex_keys
     \<lparr>VSphere = Some (ex_vsphere\<lparr>InfraManagementUser :=
        \<lparr>cred_Username = ''u3'', cred_Password = ''p3''\<rparr>\<rparr>)\<rparr> ex_secrets
     (Some ex_dc) = Inr (''u3'', ''p3'') \<and>
   GetCredentialsForCluster ex_keys
     \<lparr>VSphere = Some (ex_vsphere\<lparr>Password := [], CredentialsReference := Some ''secret''\<rparr>)\<rparr>
     ex_secrets (Some ex_dc) = Inr (''u2'', ''p4'')"
  using
    GetCredentialsForCluster_precedence [of
      "Some (ex_dc\<lparr>dc_InfraManagementUser :=
         Some \<lparr>cred_Username = ''u1'', cred_Password = ''p1''\<rparr>\<rparr>)"
      "''u1''" "''p1''" ex_keys "\<lparr>VSphere = Some ex_vsphere\<rparr>" ex_secrets ex_vsphere]
    GetCredentialsForCluster_precedence [of "Some ex_dc" "''u3''" "''p3''" ex_keys
      "\<lparr>VSphere = Some (ex_vsphere\<lparr>InfraManagementUser :=
         \<lparr>cred_Username = ''u3'', cred_Password = ''p3''\<rparr>\<rparr>)\<rparr>" ex_secrets
      "ex_vsphere\<lparr>InfraManagementUser :=
         \<lparr>cred_Username = ''u3'', cred_Password = ''p3''\<rparr>\<rparr>"]
    GetCredentialsForCluster_precedence [of "Some ex_dc" "''u2''" "''p4''" ex_keys
      "\<lparr>VSphere = Some (ex_vsphere\<lparr>Password := [], CredentialsReference := Some ''secret''\<rparr>)\<rparr>"
      ex_secrets
      "ex_vsphere\<lparr>Password := [], CredentialsReference := Some ''secret''\<rparr>"]
  by (simp add: spec_datacenter_credentials_def spec_resolve_username_def
      spec_resolve_password_def spec_resolve_field_def ex_keys_def ex_vsphere_def ex_dc_def
      ex_secrets_def)

section \<open>Cloud spec updates: folder relocation\<close>

text \<open>
  C6, as stated: \<open>ValidateCloudSpecUpdate\<close> fails exactly when the old folder is
  non-empty and the new folder differs from it. It does not hold: the old folder below
  is empty and the update is refused all the same, because the new spec carries no
  vSphere section.
\<close>

theorem ValidateCloudSpecUpdate_counterexample:
  "Folder ex_vsphere = [] \<and>
   ValidateCloudSpecUpdate \<lparr>VSphere = Some ex_vsphere\<rparr> \<lparr>VSphere = None\<rparr>
     = Some VSphereSpecEmpty"
  by (simp add: ValidateCloudSpecUpdate_def ex_vsphere_def)

text \<open>
  C6, amended. \<open>ValidateCloudSpecUpdate\<close> takes the two specs and nothing else, and
  returns an error or none: no collaborator is called. For specs that both carry a
  vSphere section it fails exactly when the old folder is non-empty and the new folder
  differs from it; when either spec has no vSphere section it fails with the
  empty-spec error.
\<close>

theorem ValidateCloudSpecUpdate_folder:
  "(VSphere oldSpec = Some ov \<longrightarrow> VSphere newSpec = Some nv \<longrightarrow>
      (ValidateCloudSpecUpdate oldSpec newSpec \<noteq> None) =
      (Folder ov \<noteq> [] \<and> Folder ov \<noteq> Folder nv)) \<and>
   (VSphere oldSpec = None \<or> VSphere newSpec = None \<longrightarrow>
      ValidateCloudSpecUpdate oldSpec newSpec = Some VSphereSpecEmpty)"
  by (auto simp: ValidateCloudSpecUpdate_def split: option.splits)

theorem ValidateCloudSpecUpdate_folder_witness:
  "ValidateCloudSpecUpdate \<lparr>VSphere = Some (ex_vsphere\<lparr>Folder := ''/dc/vm/a''\<rparr>)\<rparr>
     \<lparr>VSphere = Some (ex_vsphere\<lparr>Folder := ''/dc/vm/b''\<rparr>)\<rparr> \<noteq> None \<and>
   ValidateCloudSpecUpdate \<lparr>VSphere = Some (ex_vsphere\<lparr>Folder := []\<rparr>)\<rparr>
     \<lparr>VSphere = Some (ex_vsphere\<lparr>Folder := ''/dc/vm/b''\<rparr>)\<rparr> = None \<and>
   ValidateCloudSpecUpdate \<lparr>VSphere = None\<rparr> \<lparr>VSphere = Some ex_vsphere\<rparr>
     = Some VSphereSpecEmpty"
  using
    ValidateCloudSpecUpdate_folder [of
      "\<lparr>VSphere = Some (ex_vsphere\<lparr>Folder := ''/dc/vm/a''\<rparr>)\<rparr>"
      "ex_vsphere\<lparr>Folder := ''/dc/vm/a''\<rparr>"
      "\<lparr>VSphere = Some (ex_vsphere\<lparr>Folder := ''/dc/vm/b''\<rparr>)\<rparr>"
      "ex_vsphere\<lparr>Folder := ''/dc/vm/b''\<rparr>"]
    ValidateCloudSpecUpdate_folder [of
      "\<lparr>VSphere = Some (ex_vsphere\<lparr>Folder := []\<rparr>)\<rparr>"
      "ex_vsphere\<lparr>Folder := []\<rparr>"
      "\<lparr>VSphere = Some (ex_vsphere\<lparr>Folder := ''/dc/vm/b''\<rparr>)\<rparr>"
      "ex_vsphere\<lparr>Folder := ''/dc/vm/b''\<rparr>"]
    ValidateCloudSpecUpdate_folder [of "\<lparr>VSphere = None\<rparr>" ex_vsphere
      "\<lparr>VSphere = Some ex_vsphere\<rparr>" ex_vsphere]
  by simp

section \<open>The VM root path\<close>

lemma split_slash_append:
  "CHR ''/'' \<notin> set e \<Longrightarrow> split_slash (e @ CHR ''/'' # cs) = e # split_slash cs"
  by (induction e) auto

lemma path_Join_root_plain:
  assumes "plain_element d"
  shows "path_Join [''/'', d, ''vm''] = ''/'' @ d @ ''/vm''"
proof -
  from assms have d: "d \<noteq> []" "CHR ''/'' \<notin> set d" "d \<noteq> ''.''" "d \<noteq> ''..''"
    by (simp_all add: plain_element_def)
  have s: "split_slash (''//'' @ d @ ''/vm'') = [[], [], d, ''vm'']"
    using split_slash_append [OF d(2), of "''vm''"] by simp
  have j: "join_slash [''/'', d, ''vm''] = ''//'' @ d @ ''/vm''"
    by simp
  show ?thesis
    using d s by (simp add: path_Join_def path_Clean_def j clean_step_def Let_def)
qed

lemma split_slash_not_Nil: "split_slash s \<noteq> []"
  by (induction s) (auto split: list.splits)

lemma join_split_slash: "join_slash (split_slash s) = s"
proof (induction s)
  case Nil
  show ?case by simp
next
  case (Cons c s)
  obtain e es where s: "split_slash s = e # es"
    using split_slash_not_Nil [of s] by (cases "split_slash s") auto
  show ?case
    using Cons s by (cases es) auto
qed

lemma split_slash_no_slash: "e \<in> set (split_slash s) \<Longrightarrow> CHR ''/'' \<notin> set e"
  by (induction s arbitrary: e) (auto split: if_splits list.splits)

lemma split_slash_single: "CHR ''/'' \<notin> set e \<Longrightarrow> split_slash e = [e]"
  by (induction e) auto

lemma split_join_slash:
  "es \<noteq> [] \<Longrightarrow> \<forall>e \<in> set es. CHR ''/'' \<notin> set e \<Longrightarrow> split_slash (join_slash es) = es"
proof (induction es rule: join_slash.induct)
  case 1
  then show ?case by simp
next
  case (2 e)
  then show ?case by (simp add: split_slash_single)
next
  case (3 e e' es)
  then show ?case by (simp add: split_slash_append)
qed

lemma foldl_clean_step_plain:
  "list_all plain_element es \<Longrightarrow> foldl (clean_step r) acc es = rev es @ acc"
  by (induction es arbitrary: acc) (auto simp: clean_step_def plain_element_def)

lemma filter_plain: "list_all plain_element es \<Longrightarrow> filter (\<lambda>e. e \<noteq> []) es = es"
  by (induction es) (auto simp: plain_element_def)

text \<open>\<open>path.Clean\<close> returns a normalised absolute path as it is.\<close>

lemma path_Clean_clean_absolute:
  assumes "clean_absolute p"
  shows "path_Clean p = p"
proof -
  from assms obtain cs where p: "p = CHR ''/'' # cs"
    and cs: "cs = [] \<or> list_all plain_element (split_slash cs)"
    by (auto simp: clean_absolute_def split: list.splits)
  show ?thesis
  proof (cases "cs = []")
    case True
    with p show ?thesis by (simp add: path_Clean_def)
  next
    case False
    with cs have pl: "list_all plain_element (split_slash cs)" by simp
    have "join_slash (split_slash cs) = cs" by (rule join_split_slash)
    with p pl False show ?thesis
      by (simp add: path_Clean_def filter_plain foldl_clean_step_plain Let_def)
  qed
qed

lemma clean_step_rooted_plain:
  "list_all plain_element stack \<Longrightarrow> e \<noteq> [] \<Longrightarrow> CHR ''/'' \<notin> set e \<Longrightarrow>
   list_all plain_element (clean_step True stack e)"
  by (auto simp: clean_step_def plain_element_def split: list.splits)

lemma foldl_clean_step_rooted:
  "list_all plain_element stack \<Longrightarrow> \<forall>e \<in> set es. e \<noteq> [] \<and> CHR ''/'' \<notin> set e \<Longrightarrow>
   list_all plain_element (foldl (clean_step True) stack es)"
proof (induction es arbitrary: stack)
  case Nil
  then show ?case by simp
next
  case (Cons e es)
  have "list_all plain_element (clean_step True stack e)"
    using Cons.prems by (intro clean_step_rooted_plain) auto
  then show ?case
    using Cons by simp
qed

lemma clean_absolute_join:
  assumes "list_all plain_element es"
  shows "clean_absolute (''/'' @ join_slash es)"
proof (cases "es = []")
  case True
  then show ?thesis by (simp add: clean_absolute_def)
next
  case False
  have "\<forall>e \<in> set es. CHR ''/'' \<notin> set e"
    using assms by (auto simp: list_all_iff plain_element_def)
  then have "split_slash (join_slash es) = es"
    using False by (intro split_join_slash) auto
  with assms show ?thesis by (simp add: clean_absolute_def)
qed

text \<open>\<open>path.Clean\<close> turns every path that starts with a slash into a normalised one.\<close>

lemma path_Clean_rooted:
  assumes "p \<noteq> []" and "hd p = CHR ''/''"
  shows "clean_absolute (path_Clean p)"
proof -
  let ?elems = "filter (\<lambda>e. e \<noteq> []) (split_slash p)"
  let ?stack = "foldl (clean_step True) [] ?elems"
  have "\<forall>e \<in> set ?elems. e \<noteq> [] \<and> CHR ''/'' \<notin> set e"
    using split_slash_no_slash by auto
  then have "list_all plain_element ?stack"
    by (intro foldl_clean_step_rooted) auto
  then have "list_all plain_element (rev ?stack)"
    by (simp add: list_all_iff)
  then have "clean_absolute (''/'' @ join_slash (rev ?stack))"
    by (rule clean_absolute_join)
  moreover have "path_Clean p = ''/'' @ join_slash (rev ?stack)"
    using assms by (simp add: path_Clean_def Let_def)
  ultimately show ?thesis by simp
qed

lemma path_Join_root:
  "path_Join [''/'', d, ''vm''] = path_Clean (''/'' @ d @ ''/vm'')"
  by (cases "d = []") (simp_all add: path_Join_def path_Clean_def Let_def)

text \<open>
  C8, as stated: without an override the root path equals \<open>{datacenter}/vm\<close>. It does
  not hold: the path is joined onto \<open>/\<close>, so for the datacenter \<open>dc\<close> it is \<open>/dc/vm\<close>;
  and the join is cleaned, so for the datacenter \<open>a//b\<close> it is \<open>/a/b/vm\<close>.
\<close>

theorem getVMRootPath_counterexample:
  "RootPath ex_dc = [] \<and> getVMRootPath ex_dc = ''/dc/vm'' \<and>
   getVMRootPath ex_dc \<noteq> Datacenter ex_dc @ ''/vm'' \<and>
   getVMRootPath (ex_dc\<lparr>Datacenter := ''a//b''\<rparr>) = ''/a/b/vm''"
  by (simp add: getVMRootPath_def path_Join_def path_Clean_def clean_step_def ex_dc_def)

text \<open>
  C8, amended. For every datacenter spec without an override the root path is the
  cleaned join of \<open>/\<close>, the datacenter name and \<open>vm\<close>: it is always a normalised
  absolute path, and it is \<open>/{datacenter}/vm\<close> itself whenever that string is already
  normalised, as it is for a plain datacenter name. With an override the root path is
  the cleaned override, whatever the datacenter name is: a normalised absolute path
  when the override starts with a slash, and the override itself when it is already
  normalised.
\<close>

theorem getVMRootPath_value:
  "(RootPath dc = [] \<longrightarrow>
      getVMRootPath dc = path_Clean (''/'' @ Datacenter dc @ ''/vm'') \<and>
      clean_absolute (getVMRootPath dc) \<and>
      (clean_absolute (''/'' @ Datacenter dc @ ''/vm'') \<longrightarrow>
         getVMRootPath dc = ''/'' @ Datacenter dc @ ''/vm'') \<and>
      (plain_element (Datacenter dc) \<longrightarrow>
         getVMRootPath dc = ''/'' @ Datacenter dc @ ''/vm'')) \<and>
   (RootPath dc \<noteq> [] \<longrightarrow>
      getVMRootPath (dc\<lparr>Datacenter := d\<rparr>) = path_Clean (RootPath dc) \<and>
      (hd (RootPath dc) = CHR ''/'' \<longrightarrow> clean_absolute (getVMRootPath (dc\<lparr>Datacenter := d\<rparr>))) \<and>
      (clean_absolute (RootPath dc) \<longrightarrow> getVMRootPath (dc\<lparr>Datacenter := d\<rparr>) = RootPath dc))"
proof -
  have j: "path_Join [''/'', Datacenter dc, ''vm''] = path_Clean (''/'' @ Datacenter dc @ ''/vm'')"
    by (rule path_Join_root)
  have a: "clean_absolute (path_Clean (''/'' @ Datacenter dc @ ''/vm''))"
    by (rule path_Clean_rooted) simp_all
  have b: "clean_absolute (''/'' @ Datacenter dc @ ''/vm'') \<Longrightarrow>
      path_Clean (''/'' @ Datacenter dc @ ''/vm'') = ''/'' @ Datacenter dc @ ''/vm''"
    by (rule path_Clean_clean_absolute)
  have c: "plain_element (Datacenter dc) \<Longrightarrow>
      path_Clean (''/'' @ Datacenter dc @ ''/vm'') = ''/'' @ Datacenter dc @ ''/vm''"
    using path_Join_root_plain [of "Datacenter dc"] j by simp
  have e: "RootPath dc \<noteq> [] \<Longrightarrow> hd (RootPath dc) = CHR ''/'' \<Longrightarrow>
      clean_absolute (path_Clean (RootPath dc))"
    by (rule path_Clean_rooted)
  have f: "clean_absolute (RootPath dc) \<Longrightarrow> path_Clean (RootPath dc) = RootPath dc"
    by (rule path_Clean_clean_absolute)
  show ?thesis
    using a b c e f by (simp add: getVMRootPath_def j)
qed

text \<open>
  Instances: a plain name, a name of two elements, the empty name and a name with a
  \<open>..\<close> element, without an override; an override that has to be cleaned and one that
  is already normalised, each with another datacenter name.
\<close>

theorem getVMRootPath_value_witness:
  "getVMRootPath (ex_dc\<lparr>Datacenter := ''europe-west''\<rparr>) = ''/europe-west/vm'' \<and>
   getVMRootPath (ex_dc\<lparr>Datacenter := ''a/b''\<rparr>) = ''/a/b/vm'' \<and>
   getVMRootPath (ex_dc\<lparr>Datacenter := []\<rparr>) = ''/vm'' \<and>
   getVMRootPath (ex_dc\<lparr>Datacenter := ''a/../b''\<rparr>) = ''/b/vm'' \<and>
   getVMRootPath (ex_dc\<lparr>RootPath := ''/kubermatic//clusters/'', Datacenter := ''other''\<rparr>)
     = ''/kubermatic/clusters'' \<and>
   getVMRootPath (ex_dc\<lparr>RootPath := ''/kubermatic/clusters'', Datacenter := ''other''\<rparr>)
     = ''/kubermatic/clusters''"
proof -
  have c1: "clean_absolute (''/'' @ ''a/b'' @ ''/vm'')"
    and c2: "path_Clean (''/'' @ [] @ ''/vm'') = ''/vm''"
    and c3: "path_Clean (''/'' @ ''a/../b'' @ ''/vm'') = ''/b/vm''"
    and c4: "path_Clean ''/kubermatic//clusters/'' = ''/kubermatic/clusters''"
    and c5: "clean_absolute ''/kubermatic/clusters''"
    by (simp_all add: path_Clean_def clean_step_def clean_absolute_def plain_element_def)
  have r: "RootPath (ex_dc\<lparr>Datacenter := x\<rparr>) = []" for x
    by (simp add: ex_dc_def)
  have p: "plain_element ''europe-west''"
    by (simp add: plain_element_def)
  have i1: "getVMRootPath (ex_dc\<lparr>Datacenter := ''europe-west''\<rparr>) = ''/europe-west/vm''"
    using getVMRootPath_value [of "ex_dc\<lparr>Datacenter := ''europe-west''\<rparr>"] r p by auto
  have i2: "getVMRootPath (ex_dc\<lparr>Datacenter := ''a/b''\<rparr>) = ''/a/b/vm''"
    using getVMRootPath_value [of "ex_dc\<lparr>Datacenter := ''a/b''\<rparr>"] r c1 by auto
  have i3: "getVMRootPath (ex_dc\<lparr>Datacenter := []\<rparr>) = ''/vm''"
    using getVMRootPath_value [of "ex_dc\<lparr>Datacenter := []\<rparr>"] r c2 by auto
  have i4: "getVMRootPath (ex_dc\<lparr>Datacenter := ''a/../b''\<rparr>) = ''/b/vm''"
    using getVMRootPath_value [of "ex_dc\<lparr>Datacenter := ''a/../b''\<rparr>"] r c3 by auto
  have i5: "getVMRootPath
      (ex_dc\<lparr>RootPath := ''/kubermatic//clusters/'', Datacenter := ''other''\<rparr>)
      = ''/kubermatic/clusters''"
    using getVMRootPath_value [of "ex_dc\<lparr>RootPath := ''/kubermatic//clusters/''\<rparr>"
        "''other''"] c4 by auto
  have i6: "getVMRootPath
      (ex_dc\<lparr>RootPath := ''/kubermatic/clusters'', Datacenter := ''other''\<rparr>)
      = ''/kubermatic/clusters''"
    using getVMRootPath_value [of "ex_dc\<lparr>RootPath := ''/kubermatic/clusters''\<rparr>"
        "''other''"] c5 by auto
  show ?thesis
    using i1 i2 i3 i4 i5 i6 by blast
qed

section \<open>Listing folders below the root path\<close>

lemma HasPrefix_prefix: "HasPrefix s pre = prefix pre s"
  by (auto simp: HasPrefix_def prefix_def) (metis append_eq_conv_conj)

lemma GetVMFolders_loop_filter:
  "GetVMFolders_loop rootPath folderRefs folders =
     folders @ map (\<lambda>r. \<lparr>Path = InventoryPath r\<rparr>)
       (filter (\<lambda>r. InventoryPath r = rootPath \<or> prefix (rootPath @ ''/'') (InventoryPath r))
          folderRefs)"
  by (induction folderRefs arbitrary: folders) (auto simp: HasPrefix_prefix)

text \<open>
  C7. When the session opens and the inventory listing succeeds, \<open>GetVMFolders\<close>
  returns, in inventory order, exactly the folders whose path equals the root path or
  begins with the root path followed by a slash.
\<close>

theorem GetVMFolders_filter:
  assumes "newSession vc dc username password caBundle w = (Inr session, w1)"
    and "finder_FolderList vc (calls w1) ''*'' = Inr folderRefs"
  shows "fst (GetVMFolders vc dc username password caBundle w) =
    Inr (map (\<lambda>r. \<lparr>Path = InventoryPath r\<rparr>)
       (filter (\<lambda>r. InventoryPath r = getVMRootPath dc \<or>
                    prefix (getVMRootPath dc @ ''/'') (InventoryPath r)) folderRefs))"
  using assms
  by (simp add: GetVMFolders_def Finder_FolderList_def GetVMFolders_loop_filter)

text \<open>
  The folder example: the inventory \<open>/dc/vm\<close>, \<open>/dc/vm/a\<close>, \<open>/dc/vm/ab\<close>, \<open>/dc/other\<close>
  under the root \<open>/dc/vm/a\<close> gives \<open>/dc/vm/a\<close> alone.
\<close>

theorem GetVMFolders_filter_witness:
  "fst (GetVMFolders ex_vcenter (ex_dc\<lparr>RootPath := ''/dc/vm/a''\<rparr>) [] [] [] ex_world)
     = Inr [\<lparr>Path = ''/dc/vm/a''\<rparr>]"
proof -
  let ?dc = "ex_dc\<lparr>RootPath := ''/dc/vm/a''\<rparr>"
  have s: "newSession ex_vcenter ?dc [] [] [] ex_world =
      (Inr ex_session, snd (newSession ex_vcenter ?dc [] [] [] ex_world))"
    by (simp add: newSession_def ex_vcenter_def ex_dc_def ex_session_def Let_def)
  have f: "finder_FolderList ex_vcenter
      (calls (snd (newSession ex_vcenter ?dc [] [] [] ex_world))) ''*'' =
      Inr [\<lparr>InventoryPath = ''/dc/vm''\<rparr>, \<lparr>InventoryPath = ''/dc/vm/a''\<rparr>,
           \<lparr>InventoryPath = ''/dc/vm/ab''\<rparr>, \<lparr>InventoryPath = ''/dc/other''\<rparr>]"
    by (simp add: ex_vcenter_def)
  have r: "getVMRootPath ?dc = ''/dc/vm/a''"
    by (simp add: getVMRootPath_def path_Clean_def clean_step_def ex_dc_def)
  show ?thesis
    using GetVMFolders_filter [OF s f] by (simp add: r)
qed

section \<open>Sessions\<close>

lemma record_call_simps [simp]:
  "calls (record_call c w) = calls w @ [c]"
  "store (record_call c w) = store w"
  by (simp_all add: record_call_def)

lemma record_call_eq: "record_call c w = \<lparr>store = store w, calls = calls w @ [c]\<rparr>"
  by (simp add: record_call_def)

lemma newSession_store: "store (snd (newSession vc dc u p ca w)) = store w"
  by (simp add: newSession_def Let_def split: option.splits sum.splits)

lemma newSession_new_calls:
  "c \<in> set (calls (snd (newSession vc dc u p ca w))) \<Longrightarrow>
   c \<in> set (calls w) \<or> (\<exists>u i ca. c = NewClient u i ca) \<or> (\<exists>a b. c = Login a b) \<or>
   (\<exists>d. c = FindDatacenter d)"
  by (auto simp: newSession_def Let_def split: option.splits sum.splits)

lemma newSession_result:
  assumes "newSession vc dc u p ca w = (r, w1)"
  shows "store w1 = store w"
    and "UpdateCall n \<in> set (calls w1) \<Longrightarrow> UpdateCall n \<in> set (calls w)"
    and "DeleteVMFolder f \<in> set (calls w1) \<Longrightarrow> DeleteVMFolder f \<in> set (calls w)"
  using assms newSession_store [of vc dc u p ca w]
    newSession_new_calls [of "UpdateCall n" vc dc u p ca w]
    newSession_new_calls [of "DeleteVMFolder f" vc dc u p ca w]
  by auto

lemma newSession_NewClient:
  "url_Parse vc (Endpoint dc @ ''/sdk'') = None \<Longrightarrow>
   NewClient (Endpoint dc @ ''/sdk'') (AllowInsecure dc) ca
     \<in> set (calls (snd (newSession vc dc u p ca w)))"
  by (auto simp: newSession_def Let_def split: option.splits sum.splits)

lemma newSession_appends:
  "\<exists>cs. calls (snd (newSession vc dc u p ca w)) = calls w @ cs \<and>
     set cs \<subseteq> {NewClient (Endpoint dc @ ''/sdk'') (AllowInsecure dc) ca,
                Login (fst (login_user dc u p)) (snd (login_user dc u p)),
                FindDatacenter (Datacenter dc)}"
  by (auto simp: newSession_def Let_def split: option.splits sum.splits)

lemma newSession_appended:
  assumes "newSession vc dc u p ca w = (r, w1)"
  shows "\<exists>cs. calls w1 = calls w @ cs \<and>
     (\<forall>n. UpdateCall n \<notin> set cs) \<and> (\<forall>f. DeleteVMFolder f \<notin> set cs)"
proof -
  obtain cs where "calls w1 = calls w @ cs"
    and "set cs \<subseteq> {NewClient (Endpoint dc @ ''/sdk'') (AllowInsecure dc) ca,
                Login (fst (login_user dc u p)) (snd (login_user dc u p)),
                FindDatacenter (Datacenter dc)}"
    using newSession_appends [of vc dc u p ca w] assms by auto
  then show ?thesis by (intro exI [of _ cs]) auto
qed



text \<open>What the fixtures evaluate to.\<close>

lemma finalizers_distinct: "folderCleanupFinalizer \<noteq> tagCategoryCleanupFinilizer"
  by (simp add: folderCleanupFinalizer_def tagCategoryCleanupFinilizer_def)

lemma ex_provider_simps:
  "provider_dc ex_provider = ex_dc"
  "provider_secretKeySelector ex_provider = ex_secrets"
  "provider_caBundle ex_provider = []"
  by (simp_all add: ex_provider_def)

lemma ex_secret_keys:
  "secret_keys ex_vcenter = ex_keys"
  "secret_keys ex_vcenter_tag_in_use = ex_keys"
  "secret_keys ex_vcenter_folder_busy = ex_keys"
  "secret_keys ex_vcenter_no_rest = ex_keys"
  by (simp_all add: ex_vcenter_def ex_vcenter_tag_in_use_def ex_vcenter_folder_busy_def
      ex_vcenter_no_rest_def)

lemma ex_inline_credentials:
  "Username vs = ''u2'' \<Longrightarrow> Password vs = ''p2'' \<Longrightarrow>
   InfraManagementUser vs = \<lparr>cred_Username = [], cred_Password = []\<rparr> \<Longrightarrow>
   GetCredentialsForCluster ex_keys \<lparr>VSphere = Some vs\<rparr> ex_secrets (Some ex_dc)
     = Inr (''u2'', ''p2'')"
  by (simp add: GetCredentialsForCluster_def getUsernameAndPassword_def ex_dc_def Let_def)

lemma ex_newSession:
  assumes "vc = ex_vcenter \<or> vc = ex_vcenter_tag_in_use \<or> vc = ex_vcenter_folder_busy \<or>
    vc = ex_vcenter_no_rest"
  shows "newSession vc ex_dc ''u2'' ''p2'' [] \<lparr>store = s, calls = []\<rparr>
    = (Inr ex_session, \<lparr>store = s, calls = ex_session_calls\<rparr>)"
  using assms
  by (auto simp: newSession_def ex_vcenter_def ex_vcenter_tag_in_use_def
      ex_vcenter_folder_busy_def ex_vcenter_no_rest_def ex_dc_def ex_session_def
      ex_session_calls_def login_user_def record_call_def Let_def)

section \<open>Validation: the datastore check\<close>

text \<open>
  C5, as stated: whenever both the datastore and the datastore cluster are set,
  \<open>ValidateCloudSpec\<close> returns the configuration error. It does not hold: the spec
  below sets both and has no username and no credentials reference, and the error
  returned is the one of the credential resolution.
\<close>

theorem ValidateCloudSpec_counterexample:
  "Datastore (ex_vsphere_two_datastores\<lparr>Username := []\<rparr>) \<noteq> [] \<and>
   DatastoreCluster (ex_vsphere_two_datastores\<lparr>Username := []\<rparr>) \<noteq> [] \<and>
   ValidateCloudSpec ex_vcenter ex_provider
     \<lparr>VSphere = Some (ex_vsphere_two_datastores\<lparr>Username := []\<rparr>)\<rparr> ex_world
     = (Some NoCredentialsReference, ex_world)"
  by (simp add: ValidateCloudSpec_def GetCredentialsForCluster_def getUsernameAndPassword_def
      ex_secret_keys ex_provider_simps ex_dc_def ex_vsphere_two_datastores_def ex_vsphere_def
      Let_def)

text \<open>
  C5, amended. For a cloud spec with a vSphere section in which no datastore is set at
  all (neither the datacenter default nor the cluster's datastore or datastore
  cluster), or in which both the cluster's datastore and datastore cluster are set,
  \<open>ValidateCloudSpec\<close> fails and makes no call to vCenter: the world is returned as it
  was. The error is the configuration error when the credentials resolve; when they do
  not, it is the error of the credential resolution, which comes first.
\<close>

theorem ValidateCloudSpec_datastore_check:
  assumes "VSphere spec = Some vs"
    and "(DefaultDatastore (provider_dc v) = [] \<and> DatastoreCluster vs = [] \<and> Datastore vs = [])
         \<or> (DatastoreCluster vs \<noteq> [] \<and> Datastore vs \<noteq> [])"
  shows
   "(GetCredentialsForCluster (secret_keys vc) spec (provider_secretKeySelector v)
       (Some (provider_dc v)) = Inl err \<longrightarrow>
       ValidateCloudSpec vc v spec w = (Some err, w)) \<and>
    (GetCredentialsForCluster (secret_keys vc) spec (provider_secretKeySelector v)
       (Some (provider_dc v)) = Inr (username, password) \<longrightarrow>
       ValidateCloudSpec vc v spec w =
         (Some (if DatastoreCluster vs \<noteq> [] \<and> Datastore vs \<noteq> []
                then EitherDatastoreOrDatastoreCluster else NoDatastoreProvided), w))"
  using assms by (auto simp: ValidateCloudSpec_def)

theorem ValidateCloudSpec_datastore_check_witness:
  "ValidateCloudSpec ex_vcenter ex_provider \<lparr>VSphere = Some ex_vsphere_two_datastores\<rparr>
     ex_world = (Some EitherDatastoreOrDatastoreCluster, ex_world) \<and>
   ValidateCloudSpec ex_vcenter (ex_provider\<lparr>provider_dc := ex_dc\<lparr>DefaultDatastore := []\<rparr>\<rparr>)
     \<lparr>VSphere = Some ex_vsphere\<rparr> ex_world = (Some NoDatastoreProvided, ex_world) \<and>
   ValidateCloudSpec ex_vcenter ex_provider
     \<lparr>VSphere = Some (ex_vsphere_two_datastores\<lparr>Username := []\<rparr>)\<rparr> ex_world
     = (Some NoCredentialsReference, ex_world)"
proof -
  let ?p = "ex_provider\<lparr>provider_dc := ex_dc\<lparr>DefaultDatastore := []\<rparr>\<rparr>"
  have c1: "GetCredentialsForCluster (secret_keys ex_vcenter)
      \<lparr>VSphere = Some ex_vsphere_two_datastores\<rparr>
      (provider_secretKeySelector ex_provider) (Some (provider_dc ex_provider))
      = Inr (''u2'', ''p2'')"
    by (simp add: ex_secret_keys ex_provider_simps ex_inline_credentials ex_vsphere_def
        ex_vsphere_two_datastores_def)
  have c2: "GetCredentialsForCluster (secret_keys ex_vcenter) \<lparr>VSphere = Some ex_vsphere\<rparr>
      (provider_secretKeySelector ?p) (Some (provider_dc ?p)) = Inr (''u2'', ''p2'')"
    by (simp add: GetCredentialsForCluster_def getUsernameAndPassword_def ex_secret_keys
        ex_provider_def ex_dc_def ex_vsphere_def Let_def)
  have c3: "GetCredentialsForCluster (secret_keys ex_vcenter)
      \<lparr>VSphere = Some (ex_vsphere_two_datastores\<lparr>Username := []\<rparr>)\<rparr>
      (provider_secretKeySelector ex_provider) (Some (provider_dc ex_provider))
      = Inl NoCredentialsReference"
    by (simp add: GetCredentialsForCluster_def getUsernameAndPassword_def ex_secret_keys
        ex_provider_simps ex_dc_def ex_vsphere_two_datastores_def ex_vsphere_def Let_def)
  have d1: "(DefaultDatastore (provider_dc ex_provider) = [] \<and>
        DatastoreCluster ex_vsphere_two_datastores = [] \<and>
        Datastore ex_vsphere_two_datastores = []) \<or>
      (DatastoreCluster ex_vsphere_two_datastores \<noteq> [] \<and>
       Datastore ex_vsphere_two_datastores \<noteq> [])"
    by (simp add: ex_vsphere_two_datastores_def)
  have d2: "(DefaultDatastore (provider_dc ?p) = [] \<and> DatastoreCluster ex_vsphere = [] \<and>
        Datastore ex_vsphere = []) \<or>
      (DatastoreCluster ex_vsphere \<noteq> [] \<and> Datastore ex_vsphere \<noteq> [])"
    by (simp add: ex_vsphere_def)
  have d3: "(DefaultDatastore (provider_dc ex_provider) = [] \<and>
        DatastoreCluster (ex_vsphere_two_datastores\<lparr>Username := []\<rparr>) = [] \<and>
        Datastore (ex_vsphere_two_datastores\<lparr>Username := []\<rparr>) = []) \<or>
      (DatastoreCluster (ex_vsphere_two_datastores\<lparr>Username := []\<rparr>) \<noteq> [] \<and>
       Datastore (ex_vsphere_two_datastores\<lparr>Username := []\<rparr>) \<noteq> [])"
    by (simp add: ex_vsphere_two_datastores_def)
  have v: "VSphere \<lparr>VSphere = Some x\<rparr> = Some x" for x :: VSphereCloudSpec
    by simp
  show ?thesis
    using ValidateCloudSpec_datastore_check [OF v d1, of ex_vcenter NoCredentialsReference
        ex_world "''u2''" "''p2''"]
      ValidateCloudSpec_datastore_check [OF v d2, of ex_vcenter NoCredentialsReference
        ex_world "''u2''" "''p2''"]
      ValidateCloudSpec_datastore_check [OF v d3, of ex_vcenter NoCredentialsReference
        ex_world "''u2''" "''p2''"]
      c1 c2 c3
    by (simp add: ex_vsphere_two_datastores_def ex_vsphere_def)
qed

section \<open>Initialisation\<close>

text \<open>
  C1. When the credentials resolve, the cluster's folder is empty, the session opens
  and \<open>createVMFolder\<close> returns an error, \<open>InitializeCloudProvider\<close> returns that
  error, wrapped. After the session is open it makes the folder creation call and the
  deferred logout and nothing else: the update callback is not invoked, and the store
  that holds the tracked cluster (its folder field and its finalizers) is the one from
  before the call.
\<close>

theorem InitializeCloudProvider_folder_failure:
  assumes creds: "GetCredentialsForCluster (secret_keys vc) (Cloud (Spec cluster))
       (provider_secretKeySelector v) (Some (provider_dc v)) = Inr (username, password)"
    and vs: "VSphere (Cloud (Spec cluster)) = Some vs"
    and folder: "Folder vs = []"
    and sess: "newSession vc (provider_dc v) username password (provider_caBundle v) w
       = (Inr session, w1)"
    and fail: "ext_createVMFolder vc (calls w1) session
       (path_Join [getVMRootPath (provider_dc v), Name cluster]) = Some err"
  shows "InitializeCloudProvider vc v cluster update w =
      (Inl (FailedToCreateVMFolder
              (path_Join [getVMRootPath (provider_dc v), Name cluster]) err),
       \<lparr>store = store w,
        calls = calls w1 @
          [CreateVMFolder (path_Join [getVMRootPath (provider_dc v), Name cluster]),
           Logout]\<rparr>) \<and>
    (\<forall>n. UpdateCall n \<in> set (calls w1) \<longrightarrow> UpdateCall n \<in> set (calls w))"
proof -
  have "store w1 = store w"
    using newSession_result(1) [OF sess] .
  then show ?thesis
    using creds vs folder sess fail newSession_result(2) [OF sess]
    by (simp add: InitializeCloudProvider_def createVMFolder_def Session_Logout_def
        record_call_eq Let_def)
qed

theorem InitializeCloudProvider_folder_failure_witness:
  "InitializeCloudProvider
     (ex_vcenter\<lparr>ext_createVMFolder := (\<lambda>h session fullPath. Some (External ''denied''))\<rparr>)
     ex_provider ex_cluster ex_update ex_world =
   (Inl (FailedToCreateVMFolder ''/dc/vm/c1'' (External ''denied'')),
    \<lparr>store = ex_cluster,
     calls = ex_session_calls @ [CreateVMFolder ''/dc/vm/c1'', Logout]\<rparr>)"
proof -
  let ?vc = "ex_vcenter\<lparr>ext_createVMFolder := (\<lambda>h session fullPath. Some (External ''denied''))\<rparr>"
  have creds: "GetCredentialsForCluster (secret_keys ?vc) (Cloud (Spec ex_cluster))
      (provider_secretKeySelector ex_provider) (Some (provider_dc ex_provider))
      = Inr (''u2'', ''p2'')"
    by (simp add: GetCredentialsForCluster_def getUsernameAndPassword_def ex_vcenter_def
      ex_provider_def ex_dc_def ex_vsphere_def ex_cluster_def Let_def)
  have vs: "VSphere (Cloud (Spec ex_cluster)) = Some ex_vsphere"
    by (simp add: ex_cluster_def)
  have folder: "Folder ex_vsphere = []"
    by (simp add: ex_vsphere_def)
  have sess: "newSession ?vc (provider_dc ex_provider) ''u2'' ''p2''
      (provider_caBundle ex_provider) ex_world
      = (Inr ex_session, \<lparr>store = ex_cluster, calls = ex_session_calls\<rparr>)"
    by (simp add: newSession_def ex_vcenter_def ex_dc_def ex_session_def ex_session_calls_def
      login_user_def record_call_def Let_def ex_provider_def ex_world_def)
  have p: "path_Join [getVMRootPath (provider_dc ex_provider), Name ex_cluster] = ''/dc/vm/c1''"
    by (simp add: getVMRootPath_def path_Join_def path_Clean_def clean_step_def ex_dc_def
        ex_provider_def ex_cluster_def)
  have fail: "ext_createVMFolder ?vc (calls \<lparr>store = ex_cluster, calls = ex_session_calls\<rparr>)
      ex_session (path_Join [getVMRootPath (provider_dc ex_provider), Name ex_cluster])
      = Some (External ''denied'')"
    by simp
  show ?thesis
    using InitializeCloudProvider_folder_failure [OF creds vs folder sess fail, of ex_update]
    by (simp add: p ex_world_def)
qed



section \<open>Cleanup\<close>

lemma CleanUpCloudProvider_appends_no_delete:
  assumes "\<not> HasFinalizer cluster folderCleanupFinalizer"
  shows "\<exists>cs. calls (snd (CleanUpCloudProvider vc v cluster update w)) = calls w @ cs \<and>
     (\<forall>f. DeleteVMFolder f \<notin> set cs)"
proof (cases "GetCredentialsForCluster (secret_keys vc) (Cloud (Spec cluster))
       (provider_secretKeySelector v) (Some (provider_dc v))")
  case (Inl err)
  then show ?thesis by (simp add: CleanUpCloudProvider_def)
next
  case (Inr up)
  obtain username password where up: "up = (username, password)" by (cases up)
  obtain r w1 where s: "newSession vc (provider_dc v) username password (provider_caBundle v) w
      = (r, w1)" by (cases "newSession vc (provider_dc v) username password (provider_caBundle v) w")
  obtain cs where w1: "calls w1 = calls w @ cs" and cs: "\<forall>f. DeleteVMFolder f \<notin> set cs"
    using newSession_appended [OF s] by auto
  show ?thesis
    using assms Inr up s w1 cs
    by (auto simp: CleanUpCloudProvider_def CleanUpCloudProvider_folder_def
        CleanUpCloudProvider_tagCategory_def newRESTSession_def deleteTagCategory_def
        call_update_def Session_Logout_def RESTSession_Logout_def
        split: sum.splits prod.splits option.splits if_splits)
qed

text \<open>
  C3, as stated: on a cluster without the folder finalizer, \<open>CleanUpCloudProvider\<close>
  returns success whenever the credentials resolve and the sessions open. It does not
  hold: the cluster below has the tag-category finalizer only, the credentials resolve
  and both sessions open, and the call fails because the category deletion fails.
\<close>

theorem CleanUpCloudProvider_counterexample:
  "\<not> HasFinalizer ex_cluster_tag_only folderCleanupFinalizer \<and>
   GetCredentialsForCluster (secret_keys ex_vcenter_tag_in_use)
     (Cloud (Spec ex_cluster_tag_only))
     (provider_secretKeySelector ex_provider) (Some (provider_dc ex_provider))
     = Inr (''u2'', ''p2'') \<and>
   fst (newSession ex_vcenter_tag_in_use (provider_dc ex_provider) ''u2'' ''p2''
     (provider_caBundle ex_provider) \<lparr>store = ex_cluster_tag_only, calls = []\<rparr>)
     = Inr ex_session \<and>
   fst (newRESTSession ex_vcenter_tag_in_use (provider_dc ex_provider) ''u2'' ''p2''
     (provider_caBundle ex_provider) \<lparr>store = ex_cluster_tag_only, calls = ex_session_calls\<rparr>)
     = Inr \<lparr>rest_Client = ''rest''\<rparr> \<and>
   fst (CleanUpCloudProvider ex_vcenter_tag_in_use ex_provider ex_cluster_tag_only ex_update
     \<lparr>store = ex_cluster_tag_only, calls = []\<rparr>)
     = Inl (External ''category in use'')"
proof -
  have f: "\<not> HasFinalizer ex_cluster_tag_only folderCleanupFinalizer"
    "HasFinalizer ex_cluster_tag_only tagCategoryCleanupFinilizer"
    using finalizers_distinct by (simp_all add: HasFinalizer_def ex_cluster_tag_only_def)
  have creds: "GetCredentialsForCluster ex_keys (Cloud (Spec ex_cluster_tag_only))
      ex_secrets (Some ex_dc) = Inr (''u2'', ''p2'')"
    by (simp add: ex_cluster_tag_only_def ex_inline_credentials ex_vsphere_def)
  have rest: "newRESTSession ex_vcenter_tag_in_use ex_dc u p [] w
      = (Inr \<lparr>rest_Client = ''rest''\<rparr>, record_call (NewRESTSession ex_dc u p) w)"
    for u p and w :: "Cluster world"
    by (simp add: newRESTSession_def ex_vcenter_def ex_vcenter_tag_in_use_def)
  have del: "ext_deleteTagCategory ex_vcenter_tag_in_use h r c
      = Some (External ''category in use'')" for h r c
    by (simp add: ex_vcenter_tag_in_use_def)
  show ?thesis
    by (simp add: CleanUpCloudProvider_def CleanUpCloudProvider_folder_def
        CleanUpCloudProvider_tagCategory_def deleteTagCategory_def ex_secret_keys
        ex_provider_simps creds ex_newSession rest del f)
qed

text \<open>
  C3, amended. On a cluster without the folder finalizer the calls that
  \<open>CleanUpCloudProvider\<close> adds to those made before contain no folder deletion,
  whatever else happens. With credentials that resolve and both sessions open (the
  data-plane session adds neither an update nor a folder deletion) the call on such a
  cluster returns the cluster unchanged when the tag-category finalizer is absent too;
  when that finalizer is present and the category deletion succeeds it returns what the
  finalizer-removing update returns, and when the category deletion fails it returns
  that error. On a cluster with the folder finalizer, a failing folder deletion is
  returned as the error: after the sessions are open the only calls are the deletion
  and the two logouts, so the update that removes the finalizer is not invoked and the
  store is the one from before the call.
\<close>

theorem CleanUpCloudProvider_folder_finalizer:
  "(\<not> HasFinalizer cluster folderCleanupFinalizer \<longrightarrow>
      (\<exists>cs. calls (snd (CleanUpCloudProvider vc v cluster update w)) = calls w @ cs \<and>
         (\<forall>f. DeleteVMFolder f \<notin> set cs))) \<and>
   (GetCredentialsForCluster (secret_keys vc) (Cloud (Spec cluster))
       (provider_secretKeySelector v) (Some (provider_dc v)) = Inr (username, password) \<longrightarrow>
    newSession vc (provider_dc v) username password (provider_caBundle v) w
       = (Inr session, w1) \<longrightarrow>
    ext_newRESTSession vc (calls w1) (provider_dc v) username password (provider_caBundle v)
       = Inr restSession \<longrightarrow>
      (\<exists>cs. calls w1 = calls w @ cs \<and>
         (\<forall>n. UpdateCall n \<notin> set cs) \<and> (\<forall>f. DeleteVMFolder f \<notin> set cs)) \<and>
      (\<not> HasFinalizer cluster folderCleanupFinalizer \<longrightarrow>
         (\<not> HasFinalizer cluster tagCategoryCleanupFinilizer \<longrightarrow>
            CleanUpCloudProvider vc v cluster update w =
              (Inr cluster,
               \<lparr>store = store w,
                calls = calls w1 @ [NewRESTSession (provider_dc v) username password,
                  RESTLogout, Logout]\<rparr>)) \<and>
         (HasFinalizer cluster tagCategoryCleanupFinilizer \<longrightarrow>
            (ext_deleteTagCategory vc
               (calls w1 @ [NewRESTSession (provider_dc v) username password])
               restSession cluster = None \<longrightarrow>
               CleanUpCloudProvider vc v cluster update w =
                 (fst (update (store w) (Name cluster)
                        (\<lambda>c. Inr (RemoveFinalizer c tagCategoryCleanupFinilizer))),
                  \<lparr>store = snd (update (store w) (Name cluster)
                        (\<lambda>c. Inr (RemoveFinalizer c tagCategoryCleanupFinilizer))),
                   calls = calls w1 @ [NewRESTSession (provider_dc v) username password,
                     DeleteTagCategory cluster, UpdateCall (Name cluster),
                     RESTLogout, Logout]\<rparr>)) \<and>
            (ext_deleteTagCategory vc
               (calls w1 @ [NewRESTSession (provider_dc v) username password])
               restSession cluster = Some err \<longrightarrow>
               CleanUpCloudProvider vc v cluster update w =
                 (Inl err,
                  \<lparr>store = store w,
                   calls = calls w1 @ [NewRESTSession (provider_dc v) username password,
                     DeleteTagCategory cluster, RESTLogout, Logout]\<rparr>)))) \<and>
      (HasFinalizer cluster folderCleanupFinalizer \<longrightarrow>
       VSphere (Cloud (Spec cluster)) = Some vs \<longrightarrow>
       ext_deleteVMFolder vc (calls w1 @ [NewRESTSession (provider_dc v) username password])
          session (Folder vs) = Some err \<longrightarrow>
         CleanUpCloudProvider vc v cluster update w =
           (Inl err,
            \<lparr>store = store w,
             calls = calls w1 @ [NewRESTSession (provider_dc v) username password,
               DeleteVMFolder (Folder vs), RESTLogout, Logout]\<rparr>)))"
proof (intro conjI impI)
  assume "\<not> HasFinalizer cluster folderCleanupFinalizer"
  then show "\<exists>cs. calls (snd (CleanUpCloudProvider vc v cluster update w)) = calls w @ cs \<and>
         (\<forall>f. DeleteVMFolder f \<notin> set cs)"
    by (rule CleanUpCloudProvider_appends_no_delete)
next
  assume "newSession vc (provider_dc v) username password (provider_caBundle v) w
       = (Inr session, w1)"
  then show "\<exists>cs. calls w1 = calls w @ cs \<and>
         (\<forall>n. UpdateCall n \<notin> set cs) \<and> (\<forall>f. DeleteVMFolder f \<notin> set cs)"
    by (rule newSession_appended)
next
  assume "GetCredentialsForCluster (secret_keys vc) (Cloud (Spec cluster))
       (provider_secretKeySelector v) (Some (provider_dc v)) = Inr (username, password)"
    and s: "newSession vc (provider_dc v) username password (provider_caBundle v) w
       = (Inr session, w1)"
    and "ext_newRESTSession vc (calls w1) (provider_dc v) username password (provider_caBundle v)
       = Inr restSession"
    and "\<not> HasFinalizer cluster folderCleanupFinalizer"
    and "\<not> HasFinalizer cluster tagCategoryCleanupFinilizer"
  then show "CleanUpCloudProvider vc v cluster update w =
              (Inr cluster,
               \<lparr>store = store w,
                calls = calls w1 @ [NewRESTSession (provider_dc v) username password,
                  RESTLogout, Logout]\<rparr>)"
    using newSession_result(1) [OF s]
    by (simp add: CleanUpCloudProvider_def CleanUpCloudProvider_folder_def
        CleanUpCloudProvider_tagCategory_def newRESTSession_def Session_Logout_def
        RESTSession_Logout_def record_call_eq)
next
  assume "GetCredentialsForCluster (secret_keys vc) (Cloud (Spec cluster))
       (provider_secretKeySelector v) (Some (provider_dc v)) = Inr (username, password)"
    and s: "newSession vc (provider_dc v) username password (provider_caBundle v) w
       = (Inr session, w1)"
    and "ext_newRESTSession vc (calls w1) (provider_dc v) username password (provider_caBundle v)
       = Inr restSession"
    and "\<not> HasFinalizer cluster folderCleanupFinalizer"
    and "HasFinalizer cluster tagCategoryCleanupFinilizer"
    and "ext_deleteTagCategory vc
            (calls w1 @ [NewRESTSession (provider_dc v) username password])
            restSession cluster = None"
  then show "CleanUpCloudProvider vc v cluster update w =
                 (fst (update (store w) (Name cluster)
                        (\<lambda>c. Inr (RemoveFinalizer c tagCategoryCleanupFinilizer))),
                  \<lparr>store = snd (update (store w) (Name cluster)
                        (\<lambda>c. Inr (RemoveFinalizer c tagCategoryCleanupFinilizer))),
                   calls = calls w1 @ [NewRESTSession (provider_dc v) username password,
                     DeleteTagCategory cluster, UpdateCall (Name cluster),
                     RESTLogout, Logout]\<rparr>)"
    using newSession_result(1) [OF s]
    by (simp add: CleanUpCloudProvider_def CleanUpCloudProvider_folder_def
        CleanUpCloudProvider_tagCategory_def newRESTSession_def deleteTagCategory_def
        call_update_def Session_Logout_def RESTSession_Logout_def record_call_eq
        split: prod.splits)
next
  assume "GetCredentialsForCluster (secret_keys vc) (Cloud (Spec cluster))
       (provider_secretKeySelector v) (Some (provider_dc v)) = Inr (username, password)"
    and s: "newSession vc (provider_dc v) username password (provider_caBundle v) w
       = (Inr session, w1)"
    and "ext_newRESTSession vc (calls w1) (provider_dc v) username password (provider_caBundle v)
       = Inr restSession"
    and "\<not> HasFinalizer cluster folderCleanupFinalizer"
    and "HasFinalizer cluster tagCategoryCleanupFinilizer"
    and "ext_deleteTagCategory vc
            (calls w1 @ [NewRESTSession (provider_dc v) username password])
            restSession cluster = Some err"
  then show "CleanUpCloudProvider vc v cluster update w =
                 (Inl err,
                  \<lparr>store = store w,
                   calls = calls w1 @ [NewRESTSession (provider_dc v) username password,
                     DeleteTagCategory cluster, RESTLogout, Logout]\<rparr>)"
    using newSession_result(1) [OF s]
    by (simp add: CleanUpCloudProvider_def CleanUpCloudProvider_folder_def
        CleanUpCloudProvider_tagCategory_def newRESTSession_def deleteTagCategory_def
        Session_Logout_def RESTSession_Logout_def record_call_eq)
next
  assume "GetCredentialsForCluster (secret_keys vc) (Cloud (Spec cluster))
       (provider_secretKeySelector v) (Some (provider_dc v)) = Inr (username, password)"
    and s: "newSession vc (provider_dc v) username password (provider_caBundle v) w
       = (Inr session, w1)"
    and "ext_newRESTSession vc (calls w1) (provider_dc v) username password (provider_caBundle v)
       = Inr restSession"
    and "HasFinalizer cluster folderCleanupFinalizer"
    and "VSphere (Cloud (Spec cluster)) = Some vs"
    and "ext_deleteVMFolder vc (calls w1 @ [NewRESTSession (provider_dc v) username password])
          session (Folder vs) = Some err"
  then show "CleanUpCloudProvider vc v cluster update w =
           (Inl err,
            \<lparr>store = store w,
             calls = calls w1 @ [NewRESTSession (provider_dc v) username password,
               DeleteVMFolder (Folder vs), RESTLogout, Logout]\<rparr>)"
    using newSession_result(1) [OF s]
    by (simp add: CleanUpCloudProvider_def CleanUpCloudProvider_folder_def
        newRESTSession_def deleteVMFolder_def Session_Logout_def
        RESTSession_Logout_def record_call_eq)
qed

theorem CleanUpCloudProvider_folder_finalizer_witness:
  "CleanUpCloudProvider ex_vcenter ex_provider ex_cluster ex_update ex_world =
     (Inr ex_cluster,
      \<lparr>store = ex_cluster,
       calls = ex_session_calls @ [NewRESTSession ex_dc ''u2'' ''p2'', RESTLogout, Logout]\<rparr>) \<and>
   CleanUpCloudProvider ex_vcenter_folder_busy ex_provider ex_cluster_with_folder ex_update
       \<lparr>store = ex_cluster_with_folder, calls = []\<rparr> =
     (Inl (External ''folder busy''),
      \<lparr>store = ex_cluster_with_folder,
       calls = ex_session_calls @ [NewRESTSession ex_dc ''u2'' ''p2'',
         DeleteVMFolder ''/dc/vm/c1'', RESTLogout, Logout]\<rparr>) \<and>
   CleanUpCloudProvider ex_vcenter ex_provider ex_cluster_tag_only ex_update
       \<lparr>store = ex_cluster_tag_only, calls = []\<rparr> =
     (Inr (ex_cluster_tag_only\<lparr>Finalizers := {}\<rparr>),
      \<lparr>store = ex_cluster_tag_only\<lparr>Finalizers := {}\<rparr>,
       calls = ex_session_calls @ [NewRESTSession ex_dc ''u2'' ''p2'',
         DeleteTagCategory ex_cluster_tag_only, UpdateCall ''c1'', RESTLogout, Logout]\<rparr>)"
proof -
  have f1: "\<not> HasFinalizer ex_cluster folderCleanupFinalizer"
    "\<not> HasFinalizer ex_cluster tagCategoryCleanupFinilizer"
    by (simp_all add: HasFinalizer_def ex_cluster_def)
  have f2: "HasFinalizer ex_cluster_with_folder folderCleanupFinalizer"
    by (simp add: HasFinalizer_def ex_cluster_with_folder_def)
  have c1: "GetCredentialsForCluster (secret_keys ex_vcenter) (Cloud (Spec ex_cluster))
      (provider_secretKeySelector ex_provider) (Some (provider_dc ex_provider))
      = Inr (''u2'', ''p2'')"
    by (simp add: ex_secret_keys ex_provider_simps ex_cluster_def ex_inline_credentials
        ex_vsphere_def)
  have c2: "GetCredentialsForCluster (secret_keys ex_vcenter_folder_busy)
      (Cloud (Spec ex_cluster_with_folder))
      (provider_secretKeySelector ex_provider) (Some (provider_dc ex_provider))
      = Inr (''u2'', ''p2'')"
    by (simp add: ex_secret_keys ex_provider_simps ex_cluster_with_folder_def
        ex_inline_credentials ex_vsphere_def)
  have s1: "newSession ex_vcenter (provider_dc ex_provider) ''u2'' ''p2''
      (provider_caBundle ex_provider) ex_world
      = (Inr ex_session, \<lparr>store = ex_cluster, calls = ex_session_calls\<rparr>)"
    by (simp add: ex_provider_simps ex_world_def ex_newSession)
  have s2: "newSession ex_vcenter_folder_busy (provider_dc ex_provider) ''u2'' ''p2''
      (provider_caBundle ex_provider) \<lparr>store = ex_cluster_with_folder, calls = []\<rparr>
      = (Inr ex_session, \<lparr>store = ex_cluster_with_folder, calls = ex_session_calls\<rparr>)"
    by (simp add: ex_provider_simps ex_newSession)
  have r1: "ext_newRESTSession ex_vcenter (calls \<lparr>store = ex_cluster, calls = ex_session_calls\<rparr>)
      (provider_dc ex_provider) ''u2'' ''p2'' (provider_caBundle ex_provider)
      = Inr \<lparr>rest_Client = ''rest''\<rparr>"
    by (simp add: ex_vcenter_def)
  have r2: "ext_newRESTSession ex_vcenter_folder_busy
      (calls \<lparr>store = ex_cluster_with_folder, calls = ex_session_calls\<rparr>)
      (provider_dc ex_provider) ''u2'' ''p2'' (provider_caBundle ex_provider)
      = Inr \<lparr>rest_Client = ''rest''\<rparr>"
    by (simp add: ex_vcenter_def ex_vcenter_folder_busy_def)
  have v2: "VSphere (Cloud (Spec ex_cluster_with_folder))
      = Some (ex_vsphere\<lparr>Folder := ''/dc/vm/c1''\<rparr>)"
    by (simp add: ex_cluster_with_folder_def)
  have d2: "ext_deleteVMFolder ex_vcenter_folder_busy
      (calls \<lparr>store = ex_cluster_with_folder, calls = ex_session_calls\<rparr> @
        [NewRESTSession (provider_dc ex_provider) ''u2'' ''p2''])
      ex_session (Folder (ex_vsphere\<lparr>Folder := ''/dc/vm/c1''\<rparr>)) = Some (External ''folder busy'')"
    by (simp add: ex_vcenter_folder_busy_def)
  have a: "CleanUpCloudProvider ex_vcenter ex_provider ex_cluster ex_update ex_world =
     (Inr ex_cluster,
      \<lparr>store = store ex_world,
       calls = calls \<lparr>store = ex_cluster, calls = ex_session_calls\<rparr> @
         [NewRESTSession (provider_dc ex_provider) ''u2'' ''p2'', RESTLogout, Logout]\<rparr>)"
    using CleanUpCloudProvider_folder_finalizer [of ex_cluster ex_vcenter ex_provider ex_update
        ex_world "''u2''" "''p2''" ex_session "\<lparr>store = ex_cluster, calls = ex_session_calls\<rparr>"
        "\<lparr>rest_Client = ''rest''\<rparr>"] f1 c1 s1 r1
    by blast
  have b: "CleanUpCloudProvider ex_vcenter_folder_busy ex_provider ex_cluster_with_folder
       ex_update \<lparr>store = ex_cluster_with_folder, calls = []\<rparr> =
     (Inl (External ''folder busy''),
      \<lparr>store = store \<lparr>store = ex_cluster_with_folder, calls = []\<rparr>,
       calls = calls \<lparr>store = ex_cluster_with_folder, calls = ex_session_calls\<rparr> @
         [NewRESTSession (provider_dc ex_provider) ''u2'' ''p2'',
          DeleteVMFolder (Folder (ex_vsphere\<lparr>Folder := ''/dc/vm/c1''\<rparr>)), RESTLogout, Logout]\<rparr>)"
    using CleanUpCloudProvider_folder_finalizer [of ex_cluster_with_folder
        ex_vcenter_folder_busy ex_provider ex_update
        "\<lparr>store = ex_cluster_with_folder, calls = []\<rparr>" "''u2''" "''p2''" ex_session
        "\<lparr>store = ex_cluster_with_folder, calls = ex_session_calls\<rparr>"
        "\<lparr>rest_Client = ''rest''\<rparr>" "External ''folder busy''"
        "ex_vsphere\<lparr>Folder := ''/dc/vm/c1''\<rparr>"] f2 c2 s2 r2 v2 d2
    by blast
  have f3: "\<not> HasFinalizer ex_cluster_tag_only folderCleanupFinalizer"
    "HasFinalizer ex_cluster_tag_only tagCategoryCleanupFinilizer"
    using finalizers_distinct by (simp_all add: HasFinalizer_def ex_cluster_tag_only_def)
  have c3: "GetCredentialsForCluster (secret_keys ex_vcenter)
      (Cloud (Spec ex_cluster_tag_only))
      (provider_secretKeySelector ex_provider) (Some (provider_dc ex_provider))
      = Inr (''u2'', ''p2'')"
    by (simp add: ex_secret_keys ex_provider_simps ex_cluster_tag_only_def
        ex_inline_credentials ex_vsphere_def)
  have s3: "newSession ex_vcenter (provider_dc ex_provider) ''u2'' ''p2''
      (provider_caBundle ex_provider) \<lparr>store = ex_cluster_tag_only, calls = []\<rparr>
      = (Inr ex_session, \<lparr>store = ex_cluster_tag_only, calls = ex_session_calls\<rparr>)"
    by (simp add: ex_provider_simps ex_newSession)
  have r3: "ext_newRESTSession ex_vcenter
      (calls \<lparr>store = ex_cluster_tag_only, calls = ex_session_calls\<rparr>)
      (provider_dc ex_provider) ''u2'' ''p2'' (provider_caBundle ex_provider)
      = Inr \<lparr>rest_Client = ''rest''\<rparr>"
    by (simp add: ex_vcenter_def)
  have d3: "ext_deleteTagCategory ex_vcenter
      (calls \<lparr>store = ex_cluster_tag_only, calls = ex_session_calls\<rparr> @
        [NewRESTSession (provider_dc ex_provider) ''u2'' ''p2''])
      \<lparr>rest_Client = ''rest''\<rparr> ex_cluster_tag_only = None"
    by (simp add: ex_vcenter_def)
  have u3: "ex_update ex_cluster_tag_only ''c1''
      (\<lambda>c. Inr (RemoveFinalizer c tagCategoryCleanupFinilizer))
      = (Inr (ex_cluster_tag_only\<lparr>Finalizers := {}\<rparr>),
         ex_cluster_tag_only\<lparr>Finalizers := {}\<rparr>)"
    by (simp add: ex_update_def RemoveFinalizer_def ex_cluster_tag_only_def)
  have n3: "Name ex_cluster_tag_only = ''c1''"
    by (simp add: ex_cluster_tag_only_def)
  let ?w3 = "\<lparr>store = ex_cluster_tag_only, calls = []\<rparr>"
  let ?m = "\<lambda>c. Inr (RemoveFinalizer c tagCategoryCleanupFinilizer)"
  have c: "CleanUpCloudProvider ex_vcenter ex_provider ex_cluster_tag_only ex_update ?w3 =
     (fst (ex_update (store ?w3) (Name ex_cluster_tag_only) ?m),
      \<lparr>store = snd (ex_update (store ?w3) (Name ex_cluster_tag_only) ?m),
       calls = calls \<lparr>store = ex_cluster_tag_only, calls = ex_session_calls\<rparr> @
         [NewRESTSession (provider_dc ex_provider) ''u2'' ''p2'',
          DeleteTagCategory ex_cluster_tag_only, UpdateCall (Name ex_cluster_tag_only),
          RESTLogout, Logout]\<rparr>)"
    using CleanUpCloudProvider_folder_finalizer [of ex_cluster_tag_only ex_vcenter ex_provider
        ex_update ?w3 "''u2''" "''p2''" ex_session
        "\<lparr>store = ex_cluster_tag_only, calls = ex_session_calls\<rparr>"
        "\<lparr>rest_Client = ''rest''\<rparr>"] f3 c3 s3 r3 d3
    by blast
  show ?thesis
    using a b c by (simp add: ex_provider_simps ex_world_def u3 n3)
qed

text \<open>
  C10. On a cluster with neither finalizer \<open>CleanUpCloudProvider\<close> still resolves the
  credentials and opens both sessions. A credential error is returned with the world
  as it was; with credentials, the data-plane client is created as soon as the URL
  parses; a failing data-plane or REST session is returned as a wrapped error; and
  when both open, the cluster is returned as it was given, after the REST session call
  and the two logouts. In every case the store is the one from before the call.
\<close>

theorem CleanUpCloudProvider_without_finalizers:
  assumes "\<not> HasFinalizer cluster folderCleanupFinalizer"
    and "\<not> HasFinalizer cluster tagCategoryCleanupFinilizer"
  shows
   "(GetCredentialsForCluster (secret_keys vc) (Cloud (Spec cluster))
       (provider_secretKeySelector v) (Some (provider_dc v)) = Inl err \<longrightarrow>
       CleanUpCloudProvider vc v cluster update w = (Inl err, w)) \<and>
    (GetCredentialsForCluster (secret_keys vc) (Cloud (Spec cluster))
       (provider_secretKeySelector v) (Some (provider_dc v)) = Inr (username, password) \<longrightarrow>
      (url_Parse vc (Endpoint (provider_dc v) @ ''/sdk'') = None \<longrightarrow>
         NewClient (Endpoint (provider_dc v) @ ''/sdk'') (AllowInsecure (provider_dc v))
           (provider_caBundle v)
           \<in> set (calls (snd (CleanUpCloudProvider vc v cluster update w)))) \<and>
      (newSession vc (provider_dc v) username password (provider_caBundle v) w
         = (Inl err, w1) \<longrightarrow>
         CleanUpCloudProvider vc v cluster update w = (Inl (FailedToCreateSession err), w1) \<and>
         store w1 = store w) \<and>
      (newSession vc (provider_dc v) username password (provider_caBundle v) w
         = (Inr session, w1) \<longrightarrow>
         (ext_newRESTSession vc (calls w1) (provider_dc v) username password
            (provider_caBundle v) = Inl err \<longrightarrow>
            CleanUpCloudProvider vc v cluster update w =
              (Inl (FailedToCreateRESTSession err),
               \<lparr>store = store w,
                calls = calls w1 @ [NewRESTSession (provider_dc v) username password,
                  Logout]\<rparr>)) \<and>
         (ext_newRESTSession vc (calls w1) (provider_dc v) username password
            (provider_caBundle v) = Inr restSession \<longrightarrow>
            CleanUpCloudProvider vc v cluster update w =
              (Inr cluster,
               \<lparr>store = store w,
                calls = calls w1 @ [NewRESTSession (provider_dc v) username password,
                  RESTLogout, Logout]\<rparr>))))"
proof -
  have nc: "GetCredentialsForCluster (secret_keys vc) (Cloud (Spec cluster))
       (provider_secretKeySelector v) (Some (provider_dc v)) = Inr (username, password) \<Longrightarrow>
      url_Parse vc (Endpoint (provider_dc v) @ ''/sdk'') = None \<Longrightarrow>
         NewClient (Endpoint (provider_dc v) @ ''/sdk'') (AllowInsecure (provider_dc v))
           (provider_caBundle v)
           \<in> set (calls (snd (CleanUpCloudProvider vc v cluster update w)))"
    using assms
      newSession_NewClient [of vc "provider_dc v" "provider_caBundle v" username password w]
    by (auto simp: CleanUpCloudProvider_def CleanUpCloudProvider_folder_def
        CleanUpCloudProvider_tagCategory_def newRESTSession_def Session_Logout_def
        RESTSession_Logout_def split: sum.splits prod.splits)
  have st: "\<And>r. newSession vc (provider_dc v) username password (provider_caBundle v) w
         = (r, w1) \<Longrightarrow> store w1 = store w"
    by (rule newSession_result(1))
  show ?thesis
    using assms nc st
    by (auto simp: CleanUpCloudProvider_def CleanUpCloudProvider_folder_def
        CleanUpCloudProvider_tagCategory_def newRESTSession_def Session_Logout_def
        RESTSession_Logout_def record_call_eq)
qed

theorem CleanUpCloudProvider_without_finalizers_witness:
  "CleanUpCloudProvider ex_vcenter ex_provider ex_cluster ex_update ex_world =
     (Inr ex_cluster,
      \<lparr>store = ex_cluster,
       calls = ex_session_calls @ [NewRESTSession ex_dc ''u2'' ''p2'', RESTLogout, Logout]\<rparr>) \<and>
   CleanUpCloudProvider ex_vcenter_no_rest ex_provider ex_cluster ex_update ex_world =
     (Inl (FailedToCreateRESTSession (External ''rest endpoint down'')),
      \<lparr>store = ex_cluster,
       calls = ex_session_calls @ [NewRESTSession ex_dc ''u2'' ''p2'', Logout]\<rparr>)"
proof -
  have f: "\<not> HasFinalizer ex_cluster folderCleanupFinalizer"
    "\<not> HasFinalizer ex_cluster tagCategoryCleanupFinilizer"
    by (simp_all add: HasFinalizer_def ex_cluster_def)
  have c: "GetCredentialsForCluster (secret_keys vc) (Cloud (Spec ex_cluster))
      (provider_secretKeySelector ex_provider) (Some (provider_dc ex_provider))
      = Inr (''u2'', ''p2'')" if "vc = ex_vcenter \<or> vc = ex_vcenter_no_rest" for vc
    using that
    by (auto simp: ex_secret_keys ex_provider_simps ex_cluster_def ex_inline_credentials
        ex_vsphere_def)
  have s: "newSession vc (provider_dc ex_provider) ''u2'' ''p2''
      (provider_caBundle ex_provider) ex_world
      = (Inr ex_session, \<lparr>store = ex_cluster, calls = ex_session_calls\<rparr>)"
    if "vc = ex_vcenter \<or> vc = ex_vcenter_no_rest" for vc
    using that by (auto simp: ex_provider_simps ex_world_def ex_newSession)
  have r1: "ext_newRESTSession ex_vcenter (calls \<lparr>store = ex_cluster, calls = ex_session_calls\<rparr>)
      (provider_dc ex_provider) ''u2'' ''p2'' (provider_caBundle ex_provider)
      = Inr \<lparr>rest_Client = ''rest''\<rparr>"
    by (simp add: ex_vcenter_def)
  have r2: "ext_newRESTSession ex_vcenter_no_rest
      (calls \<lparr>store = ex_cluster, calls = ex_session_calls\<rparr>)
      (provider_dc ex_provider) ''u2'' ''p2'' (provider_caBundle ex_provider)
      = Inl (External ''rest endpoint down'')"
    by (simp add: ex_vcenter_no_rest_def)
  have a: "CleanUpCloudProvider ex_vcenter ex_provider ex_cluster ex_update ex_world =
     (Inr ex_cluster,
      \<lparr>store = store ex_world,
       calls = calls \<lparr>store = ex_cluster, calls = ex_session_calls\<rparr> @
         [NewRESTSession (provider_dc ex_provider) ''u2'' ''p2'', RESTLogout, Logout]\<rparr>)"
    using CleanUpCloudProvider_without_finalizers [OF f, of ex_vcenter ex_provider
        "External ''none''" ex_update ex_world "''u2''" "''p2''"
        "\<lparr>store = ex_cluster, calls = ex_session_calls\<rparr>" ex_session
        "\<lparr>rest_Client = ''rest''\<rparr>"] c s r1
    by blast
  have b: "CleanUpCloudProvider ex_vcenter_no_rest ex_provider ex_cluster ex_update ex_world =
     (Inl (FailedToCreateRESTSession (External ''rest endpoint down'')),
      \<lparr>store = store ex_world,
       calls = calls \<lparr>store = ex_cluster, calls = ex_session_calls\<rparr> @
         [NewRESTSession (provider_dc ex_provider) ''u2'' ''p2'', Logout]\<rparr>)"
    using CleanUpCloudProvider_without_finalizers [OF f, of ex_vcenter_no_rest ex_provider
        "External ''rest endpoint down''" ex_update ex_world "''u2''" "''p2''"
        "\<lparr>store = ex_cluster, calls = ex_session_calls\<rparr>" ex_session
        "\<lparr>rest_Client = ''rest''\<rparr>"] c s r2
    by blast
  show ?thesis
    using a b by (simp add: ex_provider_simps ex_world_def)
qed

end
